theory Spec2Isabelle
  imports Main "HOL-Library.Word"
begin

unbundle bit_operations_syntax

section \<open>Basic types\<close>

text \<open>
  Keys are Go strings, cached values are byte slices (the nil slice and the empty slice
  are both \<open>[]\<close>). A Go \<open>error\<close> is a message; the nil error is \<open>None\<close>.
  A \<open>time.Duration\<close> is a number of nanoseconds.
\<close>

type_synonym key = string
type_synonym bytes = "8 word list"
type_synonym duration = int

datatype error = Error string

type_synonym err = "error option"

text \<open>Decimal printing of an unsigned number, as \<open>%v\<close> prints a \<open>uint\<close>.\<close>

definition digit :: "nat \<Rightarrow> char" where
  "digit d = ''0123456789'' ! d"

function decimal :: "nat \<Rightarrow> string" where
  "decimal n = (if n < 10 then [digit n] else decimal (n div 10) @ [digit (n mod 10)])"
  by pat_completeness auto
termination
  by (relation "measure (\<lambda>n. n)") auto

declare decimal.simps [simp del]

section \<open>tieredcache_metrics.go: the metrics capability\<close>

text \<open>
  \<open>CacheMetrics\<close> is an interface of eight increment-only counters. The model keeps
  the eight counters of one (client, cache name) label pair; each method adds one to
  its counter, as \<open>PrometheusCacheMetrics\<close> does with \<open>Inc()\<close>.
\<close>

record CacheMetrics =
  hits :: nat
  misses :: nat
  sets :: nat
  setsCollisions :: nat
  deletesHits :: nat
  deletesMisses :: nat
  purgesHits :: nat
  purgesMisses :: nat

definition CacheMetrics_Hit :: "CacheMetrics \<Rightarrow> CacheMetrics" where
  "CacheMetrics_Hit m = m\<lparr>hits := hits m + 1\<rparr>"

definition CacheMetrics_Miss :: "CacheMetrics \<Rightarrow> CacheMetrics" where
  "CacheMetrics_Miss m = m\<lparr>misses := misses m + 1\<rparr>"

definition CacheMetrics_Set :: "CacheMetrics \<Rightarrow> CacheMetrics" where
  "CacheMetrics_Set m = m\<lparr>sets := sets m + 1\<rparr>"

definition CacheMetrics_SetCollision :: "CacheMetrics \<Rightarrow> CacheMetrics" where
  "CacheMetrics_SetCollision m = m\<lparr>setsCollisions := setsCollisions m + 1\<rparr>"

definition CacheMetrics_DeleteHit :: "CacheMetrics \<Rightarrow> CacheMetrics" where
  "CacheMetrics_DeleteHit m = m\<lparr>deletesHits := deletesHits m + 1\<rparr>"

definition CacheMetrics_DeleteMiss :: "CacheMetrics \<Rightarrow> CacheMetrics" where
  "CacheMetrics_DeleteMiss m = m\<lparr>deletesMisses := deletesMisses m + 1\<rparr>"

definition CacheMetrics_PurgeHit :: "CacheMetrics \<Rightarrow> CacheMetrics" where
  "CacheMetrics_PurgeHit m = m\<lparr>purgesHits := purgesHits m + 1\<rparr>"

definition CacheMetrics_PurgeMiss :: "CacheMetrics \<Rightarrow> CacheMetrics" where
  "CacheMetrics_PurgeMiss m = m\<lparr>purgesMisses := purgesMisses m + 1\<rparr>"

text \<open>What \<open>NewPrometheusCacheMetrics\<close> starts from: every counter at zero.\<close>

definition zero_metrics :: CacheMetrics where
  "zero_metrics = \<lparr>hits = 0, misses = 0, sets = 0, setsCollisions = 0,
     deletesHits = 0, deletesMisses = 0, purgesHits = 0, purgesMisses = 0\<rparr>"

text \<open>
  A \<open>Metrics\<close> field is an interface value that may be nil: \<open>None\<close> is nil. Every
  recording site of the source has the shape
  \<^verbatim>\<open>if x.Metrics != nil { if <failed> { x.Metrics.A() } else { x.Metrics.B() } }\<close>,
  which is \<open>record_outcome\<close> with \<open>A\<close> the method of the failure branch.
\<close>

definition record_outcome ::
  "bool \<Rightarrow> (CacheMetrics \<Rightarrow> CacheMetrics) \<Rightarrow> (CacheMetrics \<Rightarrow> CacheMetrics) \<Rightarrow>
   CacheMetrics option \<Rightarrow> CacheMetrics option" where
  "record_outcome failed on_failure on_success metrics =
     (case metrics of
        None \<Rightarrow> None
      | Some m \<Rightarrow> Some (if failed then on_failure m else on_success m))"

section \<open>gobencoder.go: the encoder capability\<close>

text \<open>
  \<open>CacheEncoder\<close> is an interface with \<open>Encode\<close> and \<open>Decode\<close>. \<open>Decode\<close> writes
  through the pointer \<open>target\<close>: the model passes the value behind the pointer in and
  returns the value behind it afterwards, with the error.
\<close>

record 'v CacheEncoder =
  Encode :: "'v \<Rightarrow> bytes \<times> err"
  Decode :: "bytes \<Rightarrow> 'v \<Rightarrow> 'v \<times> err"

text \<open>
  \<open>GobCacheEncoder\<close> wraps \<open>encoding/gob\<close>, which is not part of the repository: the
  gob encoder (what it wrote to the buffer, and its error) and the gob decoder are
  parameters. On an encoding error the buffer is dropped and nil is returned.
\<close>

definition GobCacheEncoder ::
  "('v \<Rightarrow> bytes \<times> err) \<Rightarrow> (bytes \<Rightarrow> 'v \<Rightarrow> 'v \<times> err) \<Rightarrow> 'v CacheEncoder" where
  "GobCacheEncoder gob_Encode gob_Decode =
     \<lparr>Encode = (\<lambda>value.
         let (buf, err) = gob_Encode value
         in if err \<noteq> None then ([], err) else (buf, None)),
      Decode = (\<lambda>cachedValue target. gob_Decode cachedValue target)\<rparr>"

section \<open>localcache.go: the local tier\<close>

text \<open>
  The in-process engine (bigcache) is an external collaborator. \<open>'e\<close> is what the
  pointer \<open>*bigcache.BigCache\<close> stands for: nil, or an engine with its contents. Its
  four operations are a parameter of the model.
\<close>

record 'e BigCache =
  bc_Get :: "key \<Rightarrow> 'e \<Rightarrow> (bytes \<times> err) \<times> 'e"
  bc_Set :: "key \<Rightarrow> bytes \<Rightarrow> 'e \<Rightarrow> err \<times> 'e"
  bc_Delete :: "key \<Rightarrow> 'e \<Rightarrow> err \<times> 'e"
  bc_Reset :: "'e \<Rightarrow> err \<times> 'e"

text \<open>The two fields of \<open>bigcache.Config\<close> that the constructor assigns.\<close>

record Config =
  cfg_Shards :: int
  cfg_LifeWindow :: duration

record ('e, 'v) LocalCache =
  lc_Cache :: 'e
  lc_Encoder :: "'v CacheEncoder"
  lc_Metrics :: "CacheMetrics option"
  lc_TracingEnabled :: bool

text \<open>\<open>Shards\<close> is a Go \<open>uint\<close>, 64 bits wide on the platforms the package runs on.\<close>

record LocalCacheConfig =
  Eviction :: duration
  TTL :: duration
  Shards :: "64 word"
  lcc_TracingEnabled :: bool

text \<open>
  \<open>LocalCacheConfig.NewCache\<close>. \<open>bigcache.DefaultConfig\<close>, \<open>bigcache.NewBigCache\<close>
  and the nil engine pointer are parameters. \<open>int(lcc.Shards)\<close> reads the 64 bits as
  a signed number. The early return hands back the cache with a nil engine and nil
  metrics.
\<close>

definition LocalCacheConfig_NewCache ::
  "(duration \<Rightarrow> 'z Config_scheme) \<Rightarrow> ('z Config_scheme \<Rightarrow> 'e \<times> err) \<Rightarrow> 'e \<Rightarrow>
   LocalCacheConfig \<Rightarrow> 'v CacheEncoder \<Rightarrow> CacheMetrics option \<Rightarrow>
   ('e, 'v) LocalCache \<times> err" where
  "LocalCacheConfig_NewCache DefaultConfig NewBigCache nil lcc encoder metrics =
     (let cache = \<lparr>lc_Cache = nil, lc_Encoder = encoder, lc_Metrics = None,
                    lc_TracingEnabled = lcc_TracingEnabled lcc\<rparr>
      in if Shards lcc \<noteq> 0 \<and> Shards lcc mod 2 \<noteq> 0 then
           (cache, Some (Error (''shards must be power of 2 - '' @
                                 decimal (unat (Shards lcc)) @ '' is invalid'')))
         else
           let config = DefaultConfig (Eviction lcc);
               config = (if TTL lcc \<noteq> 0 then config\<lparr>cfg_LifeWindow := TTL lcc\<rparr> else config);
               config = (if Shards lcc \<noteq> 0 then config\<lparr>cfg_Shards := sint (Shards lcc)\<rparr>
                         else config);
               (engine, err) = NewBigCache config;
               cache = cache\<lparr>lc_Cache := engine\<rparr>;
               cache = (if metrics \<noteq> None then cache\<lparr>lc_Metrics := metrics\<rparr> else cache)
           in (cache, err))"

text \<open>
  What the comment on \<open>Shards\<close> (\<open>Must be power of 2\<close>) and the error message ask of
  a shard count: to be one of \<open>2^0, ..., 2^63\<close>.
\<close>

definition power_of_two :: "64 word \<Rightarrow> bool" where
  "power_of_two w = (\<exists>n \<in> set [0..<64]. w = 2 ^ n)"

text \<open>
  The six methods of \<open>LocalCache\<close>. Each takes the cache and returns it as the call
  left it. \<open>Get\<close> takes the value behind \<open>target\<close> and returns the value behind it
  afterwards.
\<close>

definition LocalCache_GetBytes ::
  "'e BigCache \<Rightarrow> key \<Rightarrow> ('e, 'v) LocalCache \<Rightarrow> (bytes \<times> err) \<times> ('e, 'v) LocalCache" where
  "LocalCache_GetBytes B key lc =
     (let (res, engine) = bc_Get B key (lc_Cache lc)
      in (res, lc\<lparr>lc_Cache := engine\<rparr>))"

definition LocalCache_Get ::
  "'e BigCache \<Rightarrow> key \<Rightarrow> 'v \<Rightarrow> ('e, 'v) LocalCache \<Rightarrow> ('v \<times> err) \<times> ('e, 'v) LocalCache" where
  "LocalCache_Get B key target lc =
     (let ((data, err), lc) = LocalCache_GetBytes B key lc;
          lc = lc\<lparr>lc_Metrics :=
                 record_outcome (err \<noteq> None) CacheMetrics_Miss CacheMetrics_Hit (lc_Metrics lc)\<rparr>
      in if err \<noteq> None then ((target, err), lc)
         else (Decode (lc_Encoder lc) data target, lc))"

definition LocalCache_SetBytes ::
  "'e BigCache \<Rightarrow> key \<Rightarrow> bytes \<Rightarrow> ('e, 'v) LocalCache \<Rightarrow> err \<times> ('e, 'v) LocalCache" where
  "LocalCache_SetBytes B key value lc =
     (let (err, engine) = bc_Set B key value (lc_Cache lc)
      in (err, lc\<lparr>lc_Cache := engine\<rparr>))"

definition LocalCache_Set ::
  "'e BigCache \<Rightarrow> key \<Rightarrow> 'v \<Rightarrow> ('e, 'v) LocalCache \<Rightarrow> err \<times> ('e, 'v) LocalCache" where
  "LocalCache_Set B key value lc =
     (let (encodedData, err) = Encode (lc_Encoder lc) value;
          lc = lc\<lparr>lc_Metrics :=
                 record_outcome (err \<noteq> None) CacheMetrics_SetCollision CacheMetrics_Set
                   (lc_Metrics lc)\<rparr>
      in if err \<noteq> None then (err, lc)
         else LocalCache_SetBytes B key encodedData lc)"

definition LocalCache_Delete ::
  "'e BigCache \<Rightarrow> key \<Rightarrow> ('e, 'v) LocalCache \<Rightarrow> err \<times> ('e, 'v) LocalCache" where
  "LocalCache_Delete B key lc =
     (let (err, engine) = bc_Delete B key (lc_Cache lc)
      in (err, lc\<lparr>lc_Cache := engine,
                  lc_Metrics := record_outcome (err \<noteq> None) CacheMetrics_DeleteMiss
                                  CacheMetrics_DeleteHit (lc_Metrics lc)\<rparr>))"

definition LocalCache_Purge ::
  "'e BigCache \<Rightarrow> ('e, 'v) LocalCache \<Rightarrow> err \<times> ('e, 'v) LocalCache" where
  "LocalCache_Purge B lc =
     (let (err, engine) = bc_Reset B (lc_Cache lc)
      in (err, lc\<lparr>lc_Cache := engine,
                  lc_Metrics := record_outcome (err \<noteq> None) CacheMetrics_PurgeMiss
                                  CacheMetrics_PurgeHit (lc_Metrics lc)\<rparr>))"

section \<open>tieredcache.go: the Cache interface\<close>

text \<open>
  The interface \<open>Cache\<close> is a table of six methods over the state \<open>'s\<close> of whatever
  implements it.
\<close>

record ('s, 'v) Cache =
  GetBytes :: "key \<Rightarrow> 's \<Rightarrow> (bytes \<times> err) \<times> 's"
  Get :: "key \<Rightarrow> 'v \<Rightarrow> 's \<Rightarrow> ('v \<times> err) \<times> 's"
  SetBytes :: "key \<Rightarrow> bytes \<Rightarrow> 's \<Rightarrow> err \<times> 's"
  Set :: "key \<Rightarrow> 'v \<Rightarrow> 's \<Rightarrow> err \<times> 's"
  Delete :: "key \<Rightarrow> 's \<Rightarrow> err \<times> 's"
  Purge :: "'s \<Rightarrow> err \<times> 's"

text \<open>\<open>LocalCache\<close> implements \<open>Cache\<close>.\<close>

definition LocalCache_Cache :: "'e BigCache \<Rightarrow> (('e, 'v) LocalCache, 'v) Cache" where
  "LocalCache_Cache B =
     \<lparr>GetBytes = LocalCache_GetBytes B, Get = LocalCache_Get B,
      SetBytes = LocalCache_SetBytes B, Set = LocalCache_Set B,
      Delete = LocalCache_Delete B, Purge = LocalCache_Purge B\<rparr>"

section \<open>The mock cache of the tests\<close>

text \<open>
  \<open>MockCache\<close> keeps its entries in a Go map. Its methods never touch \<open>Metrics\<close>.
\<close>

record 'v MockCache =
  mc_Cache :: "key \<rightharpoonup> bytes"
  mc_Encoder :: "'v CacheEncoder"
  mc_Metrics :: "CacheMetrics option"

definition NewMockCache :: "'v CacheEncoder \<Rightarrow> 'v MockCache" where
  "NewMockCache encoder =
     \<lparr>mc_Cache = Map.empty, mc_Encoder = encoder, mc_Metrics = Some zero_metrics\<rparr>"

definition MockCache_GetBytes :: "key \<Rightarrow> 'v MockCache \<Rightarrow> (bytes \<times> err) \<times> 'v MockCache" where
  "MockCache_GetBytes key mc =
     (case mc_Cache mc key of
        None \<Rightarrow> (([], Some (Error ''key not found'')), mc)
      | Some value \<Rightarrow> ((value, None), mc))"

definition MockCache_Get :: "key \<Rightarrow> 'v \<Rightarrow> 'v MockCache \<Rightarrow> ('v \<times> err) \<times> 'v MockCache" where
  "MockCache_Get key target mc =
     (let ((data, err), mc) = MockCache_GetBytes key mc
      in if err \<noteq> None then ((target, err), mc)
         else (Decode (mc_Encoder mc) data target, mc))"

definition MockCache_SetBytes :: "key \<Rightarrow> bytes \<Rightarrow> 'v MockCache \<Rightarrow> err \<times> 'v MockCache" where
  "MockCache_SetBytes key value mc = (None, mc\<lparr>mc_Cache := (mc_Cache mc)(key \<mapsto> value)\<rparr>)"

definition MockCache_Set :: "key \<Rightarrow> 'v \<Rightarrow> 'v MockCache \<Rightarrow> err \<times> 'v MockCache" where
  "MockCache_Set key value mc =
     (let (cacheBytes, err) = Encode (mc_Encoder mc) value
      in if err \<noteq> None then (err, mc)
         else MockCache_SetBytes key cacheBytes mc)"

definition MockCache_Delete :: "key \<Rightarrow> 'v MockCache \<Rightarrow> err \<times> 'v MockCache" where
  "MockCache_Delete key mc =
     (if mc_Cache mc key = None then (Some (Error ''key not found for deletion''), mc)
      else (None, mc\<lparr>mc_Cache := (mc_Cache mc)(key := None)\<rparr>))"

definition MockCache_Purge :: "'v MockCache \<Rightarrow> err \<times> 'v MockCache" where
  "MockCache_Purge mc = (None, mc\<lparr>mc_Cache := Map.empty\<rparr>)"

definition MockCache_Cache :: "('v MockCache, 'v) Cache" where
  "MockCache_Cache =
     \<lparr>GetBytes = MockCache_GetBytes, Get = MockCache_Get,
      SetBytes = MockCache_SetBytes, Set = MockCache_Set,
      Delete = MockCache_Delete, Purge = MockCache_Purge\<rparr>"

section \<open>The remote tier\<close>

text \<open>
  The clustered store (redisc, redigo) is an external collaborator. \<open>'c\<close> is what a
  non-nil pointer \<open>*redisc.Cluster\<close> points to: a cluster with its pools, its
  connections and the servers behind them. \<open>'rep\<close> is a reply of the store. The
  operations of the library that the package calls are a parameter of the model:
  building the cluster value, \<open>Refresh\<close>, \<open>Close\<close> and \<open>Get\<close> on the cluster,
  \<open>Do\<close>, \<open>Send\<close> and \<open>Close\<close> on a connection, and the reply helpers
  \<open>redis.Bytes\<close> and \<open>redis.Strings\<close>.
\<close>

datatype arg = Str string | Bytes bytes

record ('c, 'rep) Redis =
  new_Cluster :: "string list \<Rightarrow> duration \<Rightarrow> 'c"
  Refresh :: "'c \<Rightarrow> err \<times> 'c"
  cluster_Close :: "'c \<Rightarrow> 'c"
  cluster_Get :: "'c \<Rightarrow> 'c"
  conn_Do :: "string \<Rightarrow> arg list \<Rightarrow> 'c \<Rightarrow> ('rep \<times> err) \<times> 'c"
  conn_Send :: "string \<Rightarrow> arg list \<Rightarrow> 'c \<Rightarrow> err \<times> 'c"
  conn_Close :: "'c \<Rightarrow> 'c"
  redis_Bytes :: "'rep \<times> err \<Rightarrow> bytes \<times> err"
  redis_Strings :: "'rep \<times> err \<Rightarrow> string list \<times> err"

text \<open>
  A tracing span: its operation name and its tags in the order they were set. The
  tracer is global in the source; the spans it has been handed, finished, are kept in
  \<open>rc_spans\<close>, which is not a field of the Go struct.
\<close>

datatype tag = TagS string | TagI int

type_synonym span = "string \<times> (string \<times> tag) list"

definition StartSpan :: "bool \<Rightarrow> string \<Rightarrow> (string \<times> tag) list \<Rightarrow> span option" where
  "StartSpan enabled name tags = (if enabled then Some (name, tags) else None)"

definition SetTag :: "string \<Rightarrow> tag \<Rightarrow> span option \<Rightarrow> span option" where
  "SetTag k v sp = (case sp of None \<Rightarrow> None | Some (name, tags) \<Rightarrow> Some (name, tags @ [(k, v)]))"

definition Finish :: "span option \<Rightarrow> span list \<Rightarrow> span list" where
  "Finish sp spans = (case sp of None \<Rightarrow> spans | Some s \<Rightarrow> spans @ [s])"

record ('c, 'v) RemoteCache =
  rc_cluster :: 'c
  rc_Encoder :: "'v CacheEncoder"
  rc_Metrics :: "CacheMetrics option"
  rc_TracingEnabled :: bool
  rc_spans :: "span list"

record RemoteCacheConfig =
  URLs :: "string list"
  AuthToken :: string
  Timeout :: duration
  rcc_TracingEnabled :: bool

definition RemoteCache_GetBytes ::
  "('c, 'rep) Redis \<Rightarrow> key \<Rightarrow> ('c, 'v) RemoteCache \<Rightarrow> (bytes \<times> err) \<times> ('c, 'v) RemoteCache" where
  "RemoteCache_GetBytes R key rc =
     (let span = StartSpan (rc_TracingEnabled rc) ''remote-cache-get-bytes''
                   [(''command'', TagS ''GET''), (''key'', TagS key)];
          conn = cluster_Get R (rc_cluster rc);
          (reply, conn) = conn_Do R ''GET'' [Str key] conn;
          (data, err) = redis_Bytes R reply;
          span = SetTag ''result'' (TagS (if err \<noteq> None then ''miss'' else ''hit'')) span
      in ((data, err),
          rc\<lparr>rc_cluster := conn_Close R conn, rc_spans := Finish span (rc_spans rc)\<rparr>))"

definition RemoteCache_Get ::
  "('c, 'rep) Redis \<Rightarrow> key \<Rightarrow> 'v \<Rightarrow> ('c, 'v) RemoteCache \<Rightarrow> ('v \<times> err) \<times> ('c, 'v) RemoteCache" where
  "RemoteCache_Get R key target rc =
     (let ((data, err), rc) = RemoteCache_GetBytes R key rc;
          rc = rc\<lparr>rc_Metrics :=
                 record_outcome (err \<noteq> None) CacheMetrics_Miss CacheMetrics_Hit (rc_Metrics rc)\<rparr>
      in if err \<noteq> None then ((target, err), rc)
         else (Decode (rc_Encoder rc) data target, rc))"

definition RemoteCache_SetBytes ::
  "('c, 'rep) Redis \<Rightarrow> key \<Rightarrow> bytes \<Rightarrow> ('c, 'v) RemoteCache \<Rightarrow> err \<times> ('c, 'v) RemoteCache" where
  "RemoteCache_SetBytes R key value rc =
     (let span = StartSpan (rc_TracingEnabled rc) ''remote-cache-set-bytes''
                   [(''command'', TagS ''SET''), (''key'', TagS key)];
          conn = cluster_Get R (rc_cluster rc);
          ((_, err), conn) = conn_Do R ''SET'' [Str key, Bytes value] conn;
          span = SetTag ''result'' (TagS (if err \<noteq> None then ''fail'' else ''set'')) span
      in (err, rc\<lparr>rc_cluster := conn_Close R conn, rc_spans := Finish span (rc_spans rc)\<rparr>))"

definition RemoteCache_Set ::
  "('c, 'rep) Redis \<Rightarrow> key \<Rightarrow> 'v \<Rightarrow> ('c, 'v) RemoteCache \<Rightarrow> err \<times> ('c, 'v) RemoteCache" where
  "RemoteCache_Set R key value rc =
     (let (encodedData, err) = Encode (rc_Encoder rc) value;
          rc = rc\<lparr>rc_Metrics :=
                 record_outcome (err \<noteq> None) CacheMetrics_SetCollision CacheMetrics_Set
                   (rc_Metrics rc)\<rparr>
      in if err \<noteq> None then (err, rc)
         else RemoteCache_SetBytes R key encodedData rc)"

text \<open>
  The loop of \<open>Delete\<close> that queues one \<open>DEL\<close> per matched key. Every pass overwrites
  \<open>err\<close> with the result of its \<open>Send\<close>.
\<close>

fun send_DEL :: "('c, 'rep) Redis \<Rightarrow> string list \<Rightarrow> err \<Rightarrow> 'c \<Rightarrow> err \<times> 'c" where
  "send_DEL R [] err conn = (err, conn)"
| "send_DEL R (keyToDelete # keysToDelete) err conn =
     (let (err, conn) = conn_Send R ''DEL'' [Str keyToDelete] conn
      in send_DEL R keysToDelete err conn)"

definition RemoteCache_Delete ::
  "('c, 'rep) Redis \<Rightarrow> key \<Rightarrow> ('c, 'v) RemoteCache \<Rightarrow> err \<times> ('c, 'v) RemoteCache" where
  "RemoteCache_Delete R key rc =
     (let span = StartSpan (rc_TracingEnabled rc) ''remote-cache-delete''
                   [(''command'', TagS ''Pipeline:KEYS:MULTI:DEL:EXEC''), (''key'', TagS key)];
          conn = cluster_Get R (rc_cluster rc);
          (reply, conn) = conn_Do R ''KEYS'' [Str key] conn;
          (keysToDelete, err) = redis_Strings R reply;
          (err, conn) = conn_Send R ''MULTI'' [] conn;
          span = SetTag ''num_keys'' (TagI (int (length keysToDelete))) span;
          metrics = record_outcome (err \<noteq> None \<or> length keysToDelete \<le> 0)
                      CacheMetrics_DeleteMiss CacheMetrics_DeleteHit (rc_Metrics rc);
          (err, conn) = send_DEL R keysToDelete err conn;
          ((_, err), conn) = conn_Do R ''EXEC'' [] conn;
          span = SetTag ''result'' (TagS (if err \<noteq> None then ''fail'' else ''delete'')) span
      in (err, rc\<lparr>rc_cluster := conn_Close R conn, rc_Metrics := metrics,
                  rc_spans := Finish span (rc_spans rc)\<rparr>))"

definition RemoteCache_Purge ::
  "('c, 'rep) Redis \<Rightarrow> ('c, 'v) RemoteCache \<Rightarrow> err \<times> ('c, 'v) RemoteCache" where
  "RemoteCache_Purge R rc =
     (let span = StartSpan (rc_TracingEnabled rc) ''remote-cache-delete''
                   [(''command'', TagS ''FLUSHALL'')];
          conn = cluster_Get R (rc_cluster rc);
          ((_, err), conn) = conn_Do R ''FLUSHALL'' [] conn;
          metrics = record_outcome (err \<noteq> None) CacheMetrics_PurgeMiss CacheMetrics_PurgeHit
                      (rc_Metrics rc);
          span = SetTag ''result'' (TagS (if err \<noteq> None then ''fail'' else ''purge'')) span
      in (err, rc\<lparr>rc_cluster := conn_Close R conn, rc_Metrics := metrics,
                  rc_spans := Finish span (rc_spans rc)\<rparr>))"

definition RemoteCache_Cache :: "('c, 'rep) Redis \<Rightarrow> (('c, 'v) RemoteCache, 'v) Cache" where
  "RemoteCache_Cache R =
     \<lparr>GetBytes = RemoteCache_GetBytes R, Get = RemoteCache_Get R,
      SetBytes = RemoteCache_SetBytes R, Set = RemoteCache_Set R,
      Delete = RemoteCache_Delete R, Purge = RemoteCache_Purge R\<rparr>"

section \<open>The shared connection pool\<close>

text \<open>
  \<open>sharedCluster\<close> is a package-level variable: the cluster pointer, nil when the
  process starts, and two \<open>sync.Once\<close> values. A \<open>sync.Once\<close> is its done flag:
  \<open>Do(f)\<close> runs \<open>f\<close> and sets the flag when the flag is not set, and does nothing
  otherwise; the flag is set also when \<open>f\<close> panics.

  \<open>pool_history\<close> is an auxiliary variable, not a field of the Go struct: it lists, in
  order, the operations of the library that the package has applied to the cluster behind
  the pointer. \<open>replay\<close> below applies such a list to the nil pointer again.
\<close>

datatype panic = TypeAssertionError | NilPointerDereference

datatype pool_event =
    PoolCreated "string list" duration
  | PoolRefreshed
  | PoolAuthenticated string
  | PoolClosed

record 'c sharedCluster =
  sc_cluster :: "'c option"
  onceCreate :: bool
  onceClose :: bool
  pool_history :: "pool_event list"

text \<open>The value of \<open>sharedCluster\<close> when the process starts.\<close>

definition sharedCluster_init :: "'c sharedCluster" where
  "sharedCluster_init =
     \<lparr>sc_cluster = None, onceCreate = False, onceClose = False, pool_history = []\<rparr>"

text \<open>
  \<open>RemoteCacheConfig.NewCache\<close>. \<open>Refresh\<close> on a nil cluster pointer dereferences it
  and panics; this cannot happen as long as \<open>onceCreate\<close> is set only by the constructor.
  The returned struct holds the same pointer as \<open>sharedCluster\<close>; in the model it holds
  the cluster as the constructor left it. The deferred \<open>conn.Close()\<close> of the
  authentication runs before the function returns.
\<close>

definition RemoteCacheConfig_NewCache ::
  "('c, 'rep) Redis \<Rightarrow> RemoteCacheConfig \<Rightarrow> 'v CacheEncoder \<Rightarrow> CacheMetrics option \<Rightarrow>
   'c sharedCluster \<Rightarrow> (panic + ('c, 'v) RemoteCache \<times> err) \<times> 'c sharedCluster" where
  "RemoteCacheConfig_NewCache R rcc encoder metrics sc =
     (let sc = (if onceCreate sc then sc
                else sc\<lparr>sc_cluster := Some (new_Cluster R (URLs rcc) (Timeout rcc)),
                        onceCreate := True,
                        pool_history := pool_history sc @ [PoolCreated (URLs rcc) (Timeout rcc)]\<rparr>)
      in case sc_cluster sc of
           None \<Rightarrow> (Inl NilPointerDereference, sc)
         | Some cluster \<Rightarrow>
             let (err, cluster) = Refresh R cluster;
                 history = pool_history sc @ [PoolRefreshed];
                 (err, cluster, history) =
                   (if err = None \<and> AuthToken rcc \<noteq> [] then
                      let conn = cluster_Get R cluster;
                          ((_, err), conn) = conn_Do R ''AUTH'' [Str (AuthToken rcc)] conn
                      in (err, conn_Close R conn, history @ [PoolAuthenticated (AuthToken rcc)])
                    else (err, cluster, history))
             in (Inr (\<lparr>rc_cluster = cluster, rc_Encoder = encoder, rc_Metrics = metrics,
                        rc_TracingEnabled = rcc_TracingEnabled rcc, rc_spans = []\<rparr>, err),
                 sc\<lparr>sc_cluster := Some cluster, pool_history := history\<rparr>))"

text \<open>
  \<open>RemoteCache.Close\<close> closes the cluster of \<open>sharedCluster\<close>, whatever cluster the
  receiver holds, inside \<open>onceClose.Do\<close>. When no constructor has run, the pointer is nil:
  \<open>Close\<close> on it dereferences nil and panics, nothing is closed, and \<open>onceClose\<close> is set
  all the same. The error of \<open>Close\<close> on the cluster is dropped. The result is the panic,
  if any, and \<open>sharedCluster\<close> afterwards.
\<close>

definition RemoteCache_Close ::
  "('c, 'rep) Redis \<Rightarrow> ('c, 'v) RemoteCache \<Rightarrow> 'c sharedCluster \<Rightarrow>
   panic option \<times> 'c sharedCluster" where
  "RemoteCache_Close R rc sc =
     (if onceClose sc then (None, sc)
      else case sc_cluster sc of
             None \<Rightarrow> (Some NilPointerDereference, sc\<lparr>onceClose := True\<rparr>)
           | Some cluster \<Rightarrow>
               (None, sc\<lparr>sc_cluster := Some (cluster_Close R cluster),
                         onceClose := True,
                         pool_history := pool_history sc @ [PoolClosed]\<rparr>))"

text \<open>
  What a list of operations makes of the cluster pointer: each event is the operation of
  the library that was logged with it.
\<close>

fun pool_apply :: "('c, 'rep) Redis \<Rightarrow> 'c option \<Rightarrow> pool_event \<Rightarrow> 'c option" where
  "pool_apply R c (PoolCreated urls timeout) = Some (new_Cluster R urls timeout)"
| "pool_apply R c PoolRefreshed = map_option (\<lambda>cluster. snd (Refresh R cluster)) c"
| "pool_apply R c (PoolAuthenticated token) =
     map_option
       (\<lambda>cluster. conn_Close R (snd (conn_Do R ''AUTH'' [Str token] (cluster_Get R cluster)))) c"
| "pool_apply R c PoolClosed = map_option (cluster_Close R) c"

definition replay :: "('c, 'rep) Redis \<Rightarrow> pool_event list \<Rightarrow> 'c option" where
  "replay R events = foldl (pool_apply R) None events"

section \<open>tieredcache.go: the tiered cache\<close>

text \<open>
  The two tiers are interface values. The methods below take the method tables \<open>L\<close> and
  \<open>R\<close> of the two tiers; the record holds the state behind each tier.
\<close>

record ('l, 'r) TieredCache =
  tc_Remote :: 'r
  tc_Local :: 'l
  tc_Metrics :: "CacheMetrics option"
  tc_TracingEnabled :: bool

definition TieredCache_GetBytes ::
  "('l, 'v) Cache \<Rightarrow> ('r, 'v) Cache \<Rightarrow> key \<Rightarrow> ('l, 'r) TieredCache \<Rightarrow>
   (bytes \<times> err) \<times> ('l, 'r) TieredCache" where
  "TieredCache_GetBytes L R key tc =
     (let ((data, err), local) = GetBytes L key (tc_Local tc);
          tc = tc\<lparr>tc_Local := local\<rparr>
      in if err \<noteq> None then
           let ((data, err), remote) = GetBytes R key (tc_Remote tc)
           in ((data, err), tc\<lparr>tc_Remote := remote\<rparr>)
         else ((data, err), tc))"

definition TieredCache_Get ::
  "('l, 'v) Cache \<Rightarrow> ('r, 'v) Cache \<Rightarrow> key \<Rightarrow> 'v \<Rightarrow> ('l, 'r) TieredCache \<Rightarrow>
   ('v \<times> err) \<times> ('l, 'r) TieredCache" where
  "TieredCache_Get L R key target tc =
     (let ((target, err), local) = Get L key target (tc_Local tc);
          tc = tc\<lparr>tc_Local := local\<rparr>;
          ((target, err), tc) =
            (if err \<noteq> None then
               let ((target, err), remote) = Get R key target (tc_Remote tc)
               in ((target, err), tc\<lparr>tc_Remote := remote\<rparr>)
             else ((target, err), tc))
      in ((target, err),
          tc\<lparr>tc_Metrics :=
               record_outcome (err \<noteq> None) CacheMetrics_Miss CacheMetrics_Hit (tc_Metrics tc)\<rparr>))"

definition TieredCache_SetBytes ::
  "('l, 'v) Cache \<Rightarrow> ('r, 'v) Cache \<Rightarrow> key \<Rightarrow> bytes \<Rightarrow> ('l, 'r) TieredCache \<Rightarrow>
   err \<times> ('l, 'r) TieredCache" where
  "TieredCache_SetBytes L R key value tc =
     (let (err, local) = SetBytes L key value (tc_Local tc);
          tc = tc\<lparr>tc_Local := local\<rparr>
      in if err = None then
           let (err, remote) = SetBytes R key value (tc_Remote tc)
           in (err, tc\<lparr>tc_Remote := remote\<rparr>)
         else (err, tc))"

definition TieredCache_Set ::
  "('l, 'v) Cache \<Rightarrow> ('r, 'v) Cache \<Rightarrow> key \<Rightarrow> 'v \<Rightarrow> ('l, 'r) TieredCache \<Rightarrow>
   err \<times> ('l, 'r) TieredCache" where
  "TieredCache_Set L R key value tc =
     (let (err, local) = Set L key value (tc_Local tc);
          tc = tc\<lparr>tc_Local := local\<rparr>;
          (err, tc) =
            (if err = None then
               let (err, remote) = Set R key value (tc_Remote tc)
               in (err, tc\<lparr>tc_Remote := remote\<rparr>)
             else (err, tc))
      in (err,
          tc\<lparr>tc_Metrics :=
               record_outcome (err \<noteq> None) CacheMetrics_SetCollision CacheMetrics_Set
                 (tc_Metrics tc)\<rparr>))"

definition TieredCache_Delete ::
  "('l, 'v) Cache \<Rightarrow> ('r, 'v) Cache \<Rightarrow> key \<Rightarrow> ('l, 'r) TieredCache \<Rightarrow>
   err \<times> ('l, 'r) TieredCache" where
  "TieredCache_Delete L R key tc =
     (let (err, local) = Delete L key (tc_Local tc);
          tc = tc\<lparr>tc_Local := local\<rparr>;
          (err, tc) =
            (if err = None then
               let (err, remote) = Delete R key (tc_Remote tc)
               in (err, tc\<lparr>tc_Remote := remote\<rparr>)
             else (err, tc))
      in (err,
          tc\<lparr>tc_Metrics :=
               record_outcome (err \<noteq> None) CacheMetrics_DeleteMiss CacheMetrics_DeleteHit
                 (tc_Metrics tc)\<rparr>))"

definition TieredCache_Purge ::
  "('l, 'v) Cache \<Rightarrow> ('r, 'v) Cache \<Rightarrow> ('l, 'r) TieredCache \<Rightarrow> err \<times> ('l, 'r) TieredCache" where
  "TieredCache_Purge L R tc =
     (let (err, local) = Purge L (tc_Local tc);
          tc = tc\<lparr>tc_Local := local\<rparr>;
          (err, tc) =
            (if err = None then
               let (err, remote) = Purge R (tc_Remote tc)
               in (err, tc\<lparr>tc_Remote := remote\<rparr>)
             else (err, tc))
      in (err,
          tc\<lparr>tc_Metrics :=
               record_outcome (err \<noteq> None) CacheMetrics_PurgeMiss CacheMetrics_PurgeHit
                 (tc_Metrics tc)\<rparr>))"

text \<open>
  \<open>Close\<close> and the constructor look at what a tier is, not only at its methods. A value
  of the interface type \<open>Cache\<close> is nil or carries its dynamic type: the struct type
  \<open>LocalCache\<close>, the struct type \<open>RemoteCache\<close>, or any other type that implements
  \<open>Cache\<close> (a pointer to one of the two structs, a \<open>*MockCache\<close>, ...).
\<close>

datatype ('lc, 'rc, 'o) Cache_value =
    nil_Cache
  | LocalCache_value 'lc
  | RemoteCache_value 'rc
  | Other_value 'o

text \<open>
  \<open>TieredCache.Close\<close> is \<open>tc.Remote.(RemoteCache).Close()\<close>: a type assertion to the
  struct type \<open>RemoteCache\<close> with no \<open>ok\<close> result, which panics unless the dynamic
  type of \<open>tc.Remote\<close> is exactly \<open>RemoteCache\<close>, followed by \<open>RemoteCache.Close\<close>,
  with its own panic on a nil cluster. The result is the panic, if any, and
  \<open>sharedCluster\<close> afterwards.
\<close>

definition TieredCache_Close ::
  "('c, 'rep) Redis \<Rightarrow> ('l, ('lc, ('c, 'v) RemoteCache, 'o) Cache_value) TieredCache \<Rightarrow>
   'c sharedCluster \<Rightarrow> panic option \<times> 'c sharedCluster" where
  "TieredCache_Close R tc sc =
     (case tc_Remote tc of
        RemoteCache_value rc \<Rightarrow> RemoteCache_Close R rc sc
      | _ \<Rightarrow> (Some TypeAssertionError, sc))"

record 'v TieredCacheConfig =
  RemoteConfig :: RemoteCacheConfig
  LocalConfig :: LocalCacheConfig
  tcc_Encoder :: "'v CacheEncoder option"
  tcc_TracingEnabled :: bool

text \<open>The zero value \<open>TieredCache{}\<close>: both tiers nil, no metrics, tracing off.\<close>

definition TieredCache_zero ::
  "(('lc, 'rc, 'o) Cache_value, ('lc, 'rc, 'o) Cache_value) TieredCache" where
  "TieredCache_zero =
     \<lparr>tc_Remote = nil_Cache, tc_Local = nil_Cache, tc_Metrics = None,
      tc_TracingEnabled = False\<rparr>"

text \<open>
  \<open>TieredCacheConfig.NewCache\<close>. A panic of the remote constructor goes through.
\<close>

definition TieredCacheConfig_NewCache ::
  "(duration \<Rightarrow> 'z Config_scheme) \<Rightarrow> ('z Config_scheme \<Rightarrow> 'e \<times> err) \<Rightarrow> 'e \<Rightarrow>
   ('c, 'rep) Redis \<Rightarrow> 'v TieredCacheConfig \<Rightarrow> 'v CacheEncoder \<Rightarrow>
   CacheMetrics option \<Rightarrow> CacheMetrics option \<Rightarrow> CacheMetrics option \<Rightarrow> 'c sharedCluster \<Rightarrow>
   (panic +
    ((('e, 'v) LocalCache, ('c, 'v) RemoteCache, 'o) Cache_value,
     (('e, 'v) LocalCache, ('c, 'v) RemoteCache, 'o) Cache_value) TieredCache \<times> err) \<times>
   'c sharedCluster" where
  "TieredCacheConfig_NewCache DefaultConfig NewBigCache nil R tcc encoder metrics localMetrics
     remoteMetrics sc =
     (let (res, sc) = RemoteCacheConfig_NewCache R (RemoteConfig tcc) encoder remoteMetrics sc
      in case res of
           Inl p \<Rightarrow> (Inl p, sc)
         | Inr (remote, err) \<Rightarrow>
             if err \<noteq> None then (Inr (TieredCache_zero, err), sc)
             else
               let (local, err) =
                     LocalCacheConfig_NewCache DefaultConfig NewBigCache nil (LocalConfig tcc)
                       encoder localMetrics
               in if err \<noteq> None then (Inr (TieredCache_zero, err), sc)
                  else (Inr (\<lparr>tc_Remote = RemoteCache_value remote,
                              tc_Local = LocalCache_value local,
                              tc_Metrics = metrics,
                              tc_TracingEnabled = tcc_TracingEnabled tcc\<rparr>,
                             None), sc))"

subsection \<open>Sequences of constructor and Close calls\<close>

text \<open>
  The four calls of the package that reach \<open>sharedCluster\<close>, with their arguments, and
  what a sequence of them makes of \<open>sharedCluster\<close>. The caches the constructors return
  are dropped here; a panic is taken to be recovered, so that the sequence goes on.
\<close>

datatype ('c, 'e, 'v, 'o) pool_call =
    Call_RemoteCacheConfig_NewCache RemoteCacheConfig "'v CacheEncoder" "CacheMetrics option"
  | Call_TieredCacheConfig_NewCache "'v TieredCacheConfig" "'v CacheEncoder"
      "CacheMetrics option" "CacheMetrics option" "CacheMetrics option"
  | Call_RemoteCache_Close "('c, 'v) RemoteCache"
  | Call_TieredCache_Close
      "((('e, 'v) LocalCache, ('c, 'v) RemoteCache, 'o) Cache_value,
        (('e, 'v) LocalCache, ('c, 'v) RemoteCache, 'o) Cache_value) TieredCache"

fun pool_step ::
  "(duration \<Rightarrow> 'z Config_scheme) \<Rightarrow> ('z Config_scheme \<Rightarrow> 'e \<times> err) \<Rightarrow> 'e \<Rightarrow>
   ('c, 'rep) Redis \<Rightarrow> 'c sharedCluster \<Rightarrow> ('c, 'e, 'v, 'o) pool_call \<Rightarrow> 'c sharedCluster" where
  "pool_step D N nil R sc (Call_RemoteCacheConfig_NewCache rcc encoder metrics) =
     snd (RemoteCacheConfig_NewCache R rcc encoder metrics sc)"
| "pool_step D N nil R sc (Call_TieredCacheConfig_NewCache tcc encoder metrics lm rm) =
     snd ((TieredCacheConfig_NewCache D N nil R tcc encoder metrics lm rm sc) ::
       (panic +
        ((('e, 'v) LocalCache, ('c, 'v) RemoteCache, 'o) Cache_value,
         (('e, 'v) LocalCache, ('c, 'v) RemoteCache, 'o) Cache_value) TieredCache \<times> err) \<times>
       'c sharedCluster)"
| "pool_step D N nil R sc (Call_RemoteCache_Close rc) = snd (RemoteCache_Close R rc sc)"
| "pool_step D N nil R sc (Call_TieredCache_Close tc) = snd (TieredCache_Close R tc sc)"

definition pool_run ::
  "(duration \<Rightarrow> 'z Config_scheme) \<Rightarrow> ('z Config_scheme \<Rightarrow> 'e \<times> err) \<Rightarrow> 'e \<Rightarrow>
   ('c, 'rep) Redis \<Rightarrow> ('c, 'e, 'v, 'o) pool_call list \<Rightarrow> 'c sharedCluster \<Rightarrow> 'c sharedCluster" where
  "pool_run D N nil R calls sc = foldl (pool_step D N nil R) sc calls"

text \<open>
  The runs of the creating literal (the \<open>PoolCreated\<close> events) and the number of
  \<open>Close\<close> calls the cluster has received.
\<close>

fun is_created :: "pool_event \<Rightarrow> bool" where
  "is_created (PoolCreated urls timeout) = True"
| "is_created _ = False"

definition created :: "'c sharedCluster \<Rightarrow> pool_event list" where
  "created sc = filter is_created (pool_history sc)"

definition creations :: "'c sharedCluster \<Rightarrow> nat" where
  "creations sc = length (created sc)"

definition closings :: "'c sharedCluster \<Rightarrow> nat" where
  "closings sc = length (filter (\<lambda>ev. ev = PoolClosed) (pool_history sc))"

subsection \<open>The invariant of the shared pool\<close>

text \<open>
  The invariant of \<open>sharedCluster\<close>: the cluster behind the pointer is what the logged
  operations make of the nil pointer; the pointer is non-nil exactly when \<open>onceCreate\<close>
  is set; the creating literal has run once when \<open>onceCreate\<close> is set and never
  otherwise; the cluster has been closed at most once, and only with \<open>onceClose\<close> set.
\<close>

definition pool_invariant :: "('c, 'rep) Redis \<Rightarrow> 'c sharedCluster \<Rightarrow> bool" where
  "pool_invariant R sc =
     (sc_cluster sc = replay R (pool_history sc) \<and>
      (sc_cluster sc \<noteq> None) = onceCreate sc \<and>
      creations sc = (if onceCreate sc then 1 else 0) \<and>
      closings sc \<le> (if onceClose sc then 1 else 0))"

text \<open>
  The remote configuration of a constructor call, and the one of the first constructor
  call of a sequence.
\<close>

fun config_of :: "('c, 'e, 'v, 'o) pool_call \<Rightarrow> RemoteCacheConfig option" where
  "config_of (Call_RemoteCacheConfig_NewCache rcc encoder metrics) = Some rcc"
| "config_of (Call_TieredCacheConfig_NewCache tcc encoder metrics lm rm) =
     Some (RemoteConfig tcc)"
| "config_of _ = None"

fun first_config :: "('c, 'e, 'v, 'o) pool_call list \<Rightarrow> RemoteCacheConfig option" where
  "first_config [] = None"
| "first_config (c # cs) =
     (case config_of c of Some rcc \<Rightarrow> Some rcc | None \<Rightarrow> first_config cs)"

text \<open>Which calls run \<open>onceCreate.Do\<close>, and which run \<open>onceClose.Do\<close>.\<close>

fun is_constructor :: "('c, 'e, 'v, 'o) pool_call \<Rightarrow> bool" where
  "is_constructor (Call_RemoteCacheConfig_NewCache rcc encoder metrics) = True"
| "is_constructor (Call_TieredCacheConfig_NewCache tcc encoder metrics lm rm) = True"
| "is_constructor _ = False"

fun reaches_Close :: "('c, 'e, 'v, 'o) pool_call \<Rightarrow> bool" where
  "reaches_Close (Call_RemoteCache_Close rc) = True"
| "reaches_Close (Call_TieredCache_Close tc) =
     (case tc_Remote tc of RemoteCache_value rc \<Rightarrow> True | _ \<Rightarrow> False)"
| "reaches_Close _ = False"

text \<open>
  \<open>first_Close_finds_pool built cs\<close>: the sequence \<open>cs\<close> holds a call that runs
  \<open>onceClose.Do\<close>, and when the first such call is made the pool exists, because it
  existed before (\<open>built\<close>) or a constructor call comes earlier in \<open>cs\<close>.
\<close>

fun first_Close_finds_pool :: "bool \<Rightarrow> ('c, 'e, 'v, 'o) pool_call list \<Rightarrow> bool" where
  "first_Close_finds_pool built [] = False"
| "first_Close_finds_pool built (c # cs) =
     (if reaches_Close c then built
      else first_Close_finds_pool (built \<or> is_constructor c) cs)"

section \<open>Stand-ins for the external collaborators\<close>

text \<open>
  To run the model on concrete inputs, the two external engines need concrete
  stand-ins, as the tests of the package use \<open>miniredis\<close>. They are used for concrete
  runs only; the general theorems hold for every engine.

  \<open>map_engine\<close> stands in for bigcache: a map from keys to bytes.
\<close>

definition map_engine :: "(key \<rightharpoonup> bytes) BigCache" where
  "map_engine =
     \<lparr>bc_Get = (\<lambda>key e. case e key of
                   None \<Rightarrow> (([], Some (Error ''Entry not found'')), e)
                 | Some value \<Rightarrow> ((value, None), e)),
      bc_Set = (\<lambda>key value e. (None, e(key \<mapsto> value))),
      bc_Delete = (\<lambda>key e. if e key = None then (Some (Error ''Entry not found''), e)
                            else (None, e(key := None))),
      bc_Reset = (\<lambda>e. (None, Map.empty))\<rparr>"

text \<open>
  \<open>mini_redis\<close> stands in for a cluster and the store behind it: the entries, the keys
  queued for deletion since \<open>MULTI\<close>, the commands that are made to fail, the
  commands received so far, the seed nodes the cluster was built with, and the number of
  \<open>Close\<close> calls the cluster has received. A pattern of \<open>KEYS\<close> matches a key when it
  is the key, or ends in \<open>*\<close> and its part before the star starts the key.
\<close>

record mini =
  store :: "(key \<times> bytes) list"
  queued :: "key list"
  failing :: "string list"
  received :: "string list"
  nodes :: "string list"
  closes :: nat

datatype reply = Nil_reply | Ok_reply | Bulk_reply bytes | Array_reply "string list"

definition glob :: "string \<Rightarrow> key \<Rightarrow> bool" where
  "glob pattern key =
     (pattern = key \<or>
      (pattern \<noteq> [] \<and> last pattern = CHR ''*'' \<and>
       take (length pattern - 1) key = butlast pattern))"

definition mini_Do :: "string \<Rightarrow> arg list \<Rightarrow> mini \<Rightarrow> (reply \<times> err) \<times> mini" where
  "mini_Do cmd args s =
     (let s = s\<lparr>received := received s @ [cmd]\<rparr>
      in if cmd \<in> set (failing s) then ((Nil_reply, Some (Error ''connection refused'')), s)
         else case (cmd, args) of
           (''GET'', [Str key]) \<Rightarrow>
             ((case map_of (store s) key of None \<Rightarrow> Nil_reply | Some v \<Rightarrow> Bulk_reply v, None), s)
         | (''SET'', [Str key, Bytes v]) \<Rightarrow>
             ((Ok_reply, None), s\<lparr>store := (key, v) # filter (\<lambda>kv. fst kv \<noteq> key) (store s)\<rparr>)
         | (''KEYS'', [Str pattern]) \<Rightarrow>
             ((Array_reply (filter (glob pattern) (map fst (store s))), None), s)
         | (''EXEC'', []) \<Rightarrow>
             ((Ok_reply, None),
              s\<lparr>store := filter (\<lambda>kv. fst kv \<notin> set (queued s)) (store s), queued := []\<rparr>)
         | (''FLUSHALL'', []) \<Rightarrow> ((Ok_reply, None), s\<lparr>store := []\<rparr>)
         | (''AUTH'', [Str token]) \<Rightarrow> ((Ok_reply, None), s)
         | _ \<Rightarrow> ((Nil_reply, Some (Error ''unknown command'')), s))"

definition mini_Send :: "string \<Rightarrow> arg list \<Rightarrow> mini \<Rightarrow> err \<times> mini" where
  "mini_Send cmd args s =
     (let s = s\<lparr>received := received s @ [cmd]\<rparr>
      in if cmd \<in> set (failing s) then (Some (Error ''connection refused''), s)
         else case (cmd, args) of
           (''MULTI'', []) \<Rightarrow> (None, s\<lparr>queued := []\<rparr>)
         | (''DEL'', [Str key]) \<Rightarrow> (None, s\<lparr>queued := queued s @ [key]\<rparr>)
         | _ \<Rightarrow> (Some (Error ''unknown command''), s))"

definition mini_Bytes :: "reply \<times> err \<Rightarrow> bytes \<times> err" where
  "mini_Bytes r =
     (case r of
        (_, Some e) \<Rightarrow> ([], Some e)
      | (Bulk_reply v, None) \<Rightarrow> (v, None)
      | (Nil_reply, None) \<Rightarrow> ([], Some (Error ''redigo: nil returned''))
      | (_, None) \<Rightarrow> ([], Some (Error ''redigo: unexpected type for Bytes'')))"

definition mini_Strings :: "reply \<times> err \<Rightarrow> string list \<times> err" where
  "mini_Strings r =
     (case r of
        (_, Some e) \<Rightarrow> ([], Some e)
      | (Array_reply ks, None) \<Rightarrow> (ks, None)
      | (Nil_reply, None) \<Rightarrow> ([], Some (Error ''redigo: nil returned''))
      | (_, None) \<Rightarrow> ([], Some (Error ''redigo: unexpected type for Strings'')))"

definition mini_empty :: mini where
  "mini_empty =
     \<lparr>store = [], queued = [], failing = [], received = [], nodes = [], closes = 0\<rparr>"

definition mini_redis :: "(mini, reply) Redis" where
  "mini_redis =
     \<lparr>new_Cluster = (\<lambda>urls timeout. mini_empty\<lparr>nodes := urls\<rparr>),
      Refresh = (\<lambda>s. (None, s)),
      cluster_Close = (\<lambda>s. s\<lparr>closes := closes s + 1\<rparr>),
      cluster_Get = (\<lambda>s. s),
      conn_Do = mini_Do,
      conn_Send = mini_Send,
      conn_Close = (\<lambda>s. s),
      redis_Bytes = mini_Bytes,
      redis_Strings = mini_Strings\<rparr>"

text \<open>
  An encoder for concrete runs: \<open>GobCacheEncoder\<close> over a gob stand-in for which a byte
  slice is its own encoding.
\<close>

definition plain_encoder :: "bytes CacheEncoder" where
  "plain_encoder =
     GobCacheEncoder (\<lambda>value. (value, None)) (\<lambda>cachedValue target. (cachedValue, None))"

text \<open>An encoder whose \<open>Decode\<close> always fails and leaves the target as it was.\<close>

definition failing_decoder :: "bytes CacheEncoder" where
  "failing_decoder =
     \<lparr>Encode = (\<lambda>value. (value, None)),
      Decode = (\<lambda>cachedValue target. (target, Some (Error ''decode error'')))\<rparr>"

text \<open>
  \<open>Spy C\<close> is the implementation \<open>C\<close> of \<open>Cache\<close> with a log of the calls it
  receives: every method appends its call to the log and then does what \<open>C\<close> does.
\<close>

datatype 'v call =
    Call_GetBytes key
  | Call_Get key
  | Call_SetBytes key bytes
  | Call_Set key 'v
  | Call_Delete key
  | Call_Purge

record ('s, 'v) spy =
  inner :: 's
  calls :: "'v call list"

definition Spy :: "('s, 'v) Cache \<Rightarrow> (('s, 'v) spy, 'v) Cache" where
  "Spy C =
     \<lparr>GetBytes = (\<lambda>key s. let (res, i) = GetBytes C key (inner s)
                          in (res, \<lparr>inner = i, calls = calls s @ [Call_GetBytes key]\<rparr>)),
      Get = (\<lambda>key target s. let (res, i) = Get C key target (inner s)
                            in (res, \<lparr>inner = i, calls = calls s @ [Call_Get key]\<rparr>)),
      SetBytes = (\<lambda>key value s. let (res, i) = SetBytes C key value (inner s)
                                in (res, \<lparr>inner = i, calls = calls s @ [Call_SetBytes key value]\<rparr>)),
      Set = (\<lambda>key value s. let (res, i) = Set C key value (inner s)
                           in (res, \<lparr>inner = i, calls = calls s @ [Call_Set key value]\<rparr>)),
      Delete = (\<lambda>key s. let (res, i) = Delete C key (inner s)
                        in (res, \<lparr>inner = i, calls = calls s @ [Call_Delete key]\<rparr>)),
      Purge = (\<lambda>s. let (res, i) = Purge C (inner s)
                    in (res, \<lparr>inner = i, calls = calls s @ [Call_Purge]\<rparr>))\<rparr>"

text \<open>A mock cache holding the entries \<open>m\<close>, behind a spy with an empty log.\<close>

definition spied_mock :: "(key \<rightharpoonup> bytes) \<Rightarrow> (bytes MockCache, bytes) spy" where
  "spied_mock m = \<lparr>inner = (NewMockCache plain_encoder)\<lparr>mc_Cache := m\<rparr>, calls = []\<rparr>"

subsection \<open>Concrete caches\<close>

text \<open>
  A local cache over \<open>map_engine\<close> that holds \<open>k\<close>, with an encoder whose \<open>Decode\<close>
  fails, and a remote cache over \<open>mini_redis\<close> with the same content and encoder. Both
  have metrics, all at zero.
\<close>

definition undecodable_local :: "(key \<rightharpoonup> bytes, bytes) LocalCache" where
  "undecodable_local =
     \<lparr>lc_Cache = [''k'' \<mapsto> [1]], lc_Encoder = failing_decoder,
      lc_Metrics = Some zero_metrics, lc_TracingEnabled = False\<rparr>"

definition undecodable_remote :: "(mini, bytes) RemoteCache" where
  "undecodable_remote =
     \<lparr>rc_cluster = mini_empty\<lparr>store := [(''k'', [1])]\<rparr>, rc_Encoder = failing_decoder,
      rc_Metrics = Some zero_metrics, rc_TracingEnabled = False, rc_spans = []\<rparr>"

text \<open>An empty local cache over \<open>map_engine\<close>, without metrics.\<close>

definition empty_local :: "(key \<rightharpoonup> bytes, bytes) LocalCache" where
  "empty_local =
     \<lparr>lc_Cache = Map.empty, lc_Encoder = plain_encoder, lc_Metrics = None,
      lc_TracingEnabled = False\<rparr>"

text \<open>
  A remote cache over \<open>mini_redis\<close> holding \<open>foo1\<close>, \<open>foo2\<close> and \<open>bar\<close>, whose store
  refuses the commands \<open>refused\<close>.
\<close>

definition foo_bar_remote :: "string list \<Rightarrow> (mini, bytes) RemoteCache" where
  "foo_bar_remote refused =
     \<lparr>rc_cluster = mini_empty\<lparr>store := [(''foo1'', [97]), (''foo2'', [98]), (''bar'', [99])],
                                failing := refused\<rparr>,
      rc_Encoder = plain_encoder, rc_Metrics = Some zero_metrics,
      rc_TracingEnabled = False, rc_spans = []\<rparr>"

text \<open>A tiered cache of two mocks in which only the Remote tier holds \<open>k\<close>.\<close>

definition remote_only :: "(bytes MockCache, bytes MockCache) TieredCache" where
  "remote_only =
     \<lparr>tc_Remote = (NewMockCache plain_encoder)\<lparr>mc_Cache := [''k'' \<mapsto> [1, 2]]\<rparr>,
      tc_Local = NewMockCache plain_encoder,
      tc_Metrics = None, tc_TracingEnabled = False\<rparr>"

text \<open>
  Inputs for a run of constructor and \<open>Close\<close> calls: two remote configurations with
  different seed nodes, a tiered cache of two mocks (as the tests build it), and a
  sequence that constructs twice, closes, closes the mock-backed tiered cache, closes
  again and constructs once more.
\<close>

definition config_A :: RemoteCacheConfig where
  "config_A = \<lparr>URLs = [''127.0.0.1:7000''], AuthToken = [], Timeout = 5000000000,
               rcc_TracingEnabled = True\<rparr>"

definition config_B :: RemoteCacheConfig where
  "config_B = \<lparr>URLs = [''10.0.0.1:7000''], AuthToken = ''secret'', Timeout = 1,
               rcc_TracingEnabled = False\<rparr>"

definition mock_tiered ::
  "(((key \<rightharpoonup> bytes, bytes) LocalCache, (mini, bytes) RemoteCache, bytes MockCache) Cache_value,
    ((key \<rightharpoonup> bytes, bytes) LocalCache, (mini, bytes) RemoteCache, bytes MockCache) Cache_value)
   TieredCache" where
  "mock_tiered =
     \<lparr>tc_Remote = Other_value (NewMockCache plain_encoder),
      tc_Local = Other_value (NewMockCache plain_encoder),
      tc_Metrics = None, tc_TracingEnabled = False\<rparr>"

definition real_tiered ::
  "(((key \<rightharpoonup> bytes, bytes) LocalCache, (mini, bytes) RemoteCache, bytes MockCache) Cache_value,
    ((key \<rightharpoonup> bytes, bytes) LocalCache, (mini, bytes) RemoteCache, bytes MockCache) Cache_value)
   TieredCache" where
  "real_tiered =
     \<lparr>tc_Remote = RemoteCache_value (foo_bar_remote []),
      tc_Local = LocalCache_value empty_local,
      tc_Metrics = None, tc_TracingEnabled = False\<rparr>"

definition example_calls ::
  "(mini, key \<rightharpoonup> bytes, bytes, bytes MockCache) pool_call list" where
  "example_calls =
     [Call_RemoteCacheConfig_NewCache config_A plain_encoder None,
      Call_RemoteCacheConfig_NewCache config_B plain_encoder None,
      Call_RemoteCache_Close (foo_bar_remote []),
      Call_TieredCache_Close mock_tiered,
      Call_TieredCache_Close real_tiered,
      Call_RemoteCacheConfig_NewCache config_B plain_encoder None]"

text \<open>Stand-ins for \<open>bigcache.DefaultConfig\<close> and \<open>bigcache.NewBigCache\<close>.\<close>

definition map_DefaultConfig :: "duration \<Rightarrow> Config" where
  "map_DefaultConfig eviction = \<lparr>cfg_Shards = 1024, cfg_LifeWindow = eviction\<rparr>"

definition map_NewBigCache :: "Config \<Rightarrow> (key \<rightharpoonup> bytes) \<times> err" where
  "map_NewBigCache config = (Map.empty, None)"

text \<open>
  A tiered cache whose Local tier is an empty mock and whose Remote tier is a remote
  cache over a store that refuses \<open>SET\<close>.
\<close>

definition refusing_remote :: "(bytes MockCache, (mini, bytes) RemoteCache) TieredCache" where
  "refusing_remote =
     \<lparr>tc_Remote = \<lparr>rc_cluster = mini_empty\<lparr>failing := [''SET'']\<rparr>,
                    rc_Encoder = plain_encoder, rc_Metrics = None,
                    rc_TracingEnabled = False, rc_spans = []\<rparr>,
      tc_Local = NewMockCache plain_encoder,
      tc_Metrics = None, tc_TracingEnabled = False\<rparr>"

text \<open>
  The pool after one constructor call with \<open>config_A\<close>, and a sequence that calls
  \<open>Close\<close> before any constructor, then constructs, then calls \<open>Close\<close> again.
\<close>

definition open_pool :: "mini sharedCluster" where
  "open_pool =
     snd (RemoteCacheConfig_NewCache mini_redis config_A plain_encoder None sharedCluster_init)"

definition close_first_calls ::
  "(mini, key \<rightharpoonup> bytes, bytes, bytes MockCache) pool_call list" where
  "close_first_calls =
     [Call_RemoteCache_Close (foo_bar_remote []),
      Call_RemoteCacheConfig_NewCache config_A plain_encoder None,
      Call_RemoteCache_Close (foo_bar_remote [])]"

text \<open>
  \<open>MockCacheEncoder\<close>, the fake encoder of the package: \<open>Encode\<close> returns the value it
  was given, which must be a byte slice (values are byte slices here), and \<open>Decode\<close>
  returns no error and does not touch the target. \<open>mock_encoded_local\<close> is an empty
  local cache over \<open>map_engine\<close> with this encoder.
\<close>

definition MockCacheEncoder :: "bytes CacheEncoder" where
  "MockCacheEncoder =
     \<lparr>Encode = (\<lambda>value. (value, None)), Decode = (\<lambda>cachedValue target. (target, None))\<rparr>"

definition mock_encoded_local :: "(key \<rightharpoonup> bytes, bytes) LocalCache" where
  "mock_encoded_local =
     \<lparr>lc_Cache = Map.empty, lc_Encoder = MockCacheEncoder, lc_Metrics = None,
      lc_TracingEnabled = False\<rparr>"

section \<open>Verification\<close>

subsection \<open>Unfolded forms of the operations\<close>

lemma Spy_GetBytes:
  "GetBytes (Spy C) key s =
     (fst (GetBytes C key (inner s)),
      \<lparr>inner = snd (GetBytes C key (inner s)), calls = calls s @ [Call_GetBytes key]\<rparr>)"
  by (simp add: Spy_def split: prod.splits)

lemma Spy_Get:
  "Get (Spy C) key target s =
     (fst (Get C key target (inner s)),
      \<lparr>inner = snd (Get C key target (inner s)), calls = calls s @ [Call_Get key]\<rparr>)"
  by (simp add: Spy_def split: prod.splits)

lemma Spy_SetBytes:
  "SetBytes (Spy C) key b s =
     (fst (SetBytes C key b (inner s)),
      \<lparr>inner = snd (SetBytes C key b (inner s)), calls = calls s @ [Call_SetBytes key b]\<rparr>)"
  by (simp add: Spy_def split: prod.splits)

lemma Spy_Set:
  "Set (Spy C) key v s =
     (fst (Set C key v (inner s)),
      \<lparr>inner = snd (Set C key v (inner s)), calls = calls s @ [Call_Set key v]\<rparr>)"
  by (simp add: Spy_def split: prod.splits)

lemma TieredCache_GetBytes_unfold:
  "TieredCache_GetBytes L R key tc =
     (if snd (fst (GetBytes L key (tc_Local tc))) = None
      then (fst (GetBytes L key (tc_Local tc)),
            tc\<lparr>tc_Local := snd (GetBytes L key (tc_Local tc))\<rparr>)
      else (fst (GetBytes R key (tc_Remote tc)),
            tc\<lparr>tc_Local := snd (GetBytes L key (tc_Local tc)),
               tc_Remote := snd (GetBytes R key (tc_Remote tc))\<rparr>))"
  by (auto simp add: TieredCache_GetBytes_def split: prod.splits)

lemma TieredCache_SetBytes_unfold:
  "TieredCache_SetBytes L R key b tc =
     (if fst (SetBytes L key b (tc_Local tc)) = None
      then (fst (SetBytes R key b (tc_Remote tc)),
            tc\<lparr>tc_Local := snd (SetBytes L key b (tc_Local tc)),
               tc_Remote := snd (SetBytes R key b (tc_Remote tc))\<rparr>)
      else (fst (SetBytes L key b (tc_Local tc)),
            tc\<lparr>tc_Local := snd (SetBytes L key b (tc_Local tc))\<rparr>))"
  by (auto simp add: TieredCache_SetBytes_def split: prod.splits)

lemma TieredCache_Set_unfold:
  "TieredCache_Set L R key v tc =
     (if fst (Set L key v (tc_Local tc)) = None
      then (fst (Set R key v (tc_Remote tc)),
            tc\<lparr>tc_Local := snd (Set L key v (tc_Local tc)),
               tc_Remote := snd (Set R key v (tc_Remote tc)),
               tc_Metrics := record_outcome (fst (Set R key v (tc_Remote tc)) \<noteq> None)
                               CacheMetrics_SetCollision CacheMetrics_Set (tc_Metrics tc)\<rparr>)
      else (fst (Set L key v (tc_Local tc)),
            tc\<lparr>tc_Local := snd (Set L key v (tc_Local tc)),
               tc_Metrics := map_option CacheMetrics_SetCollision (tc_Metrics tc)\<rparr>))"
  by (auto simp add: TieredCache_Set_def record_outcome_def split: prod.splits option.splits)

lemma TieredCache_Get_unfold:
  "TieredCache_Get L R key t tc =
     (if snd (fst (Get L key t (tc_Local tc))) = None
      then (fst (Get L key t (tc_Local tc)),
            tc\<lparr>tc_Local := snd (Get L key t (tc_Local tc)),
               tc_Metrics := map_option CacheMetrics_Hit (tc_Metrics tc)\<rparr>)
      else (fst (Get R key (fst (fst (Get L key t (tc_Local tc)))) (tc_Remote tc)),
            tc\<lparr>tc_Local := snd (Get L key t (tc_Local tc)),
               tc_Remote := snd (Get R key (fst (fst (Get L key t (tc_Local tc)))) (tc_Remote tc)),
               tc_Metrics :=
                 record_outcome
                   (snd (fst (Get R key (fst (fst (Get L key t (tc_Local tc)))) (tc_Remote tc)))
                      \<noteq> None)
                   CacheMetrics_Miss CacheMetrics_Hit (tc_Metrics tc)\<rparr>))"
  by (auto simp add: TieredCache_Get_def record_outcome_def split: prod.splits option.splits)

subsection \<open>Fallback reads\<close>

text \<open>
  C1. \<open>TieredCache.GetBytes\<close> calls \<open>Local.GetBytes\<close> first. When that call fails, it
  calls \<open>Remote.GetBytes\<close> and returns exactly what Remote returned; when it succeeds,
  it returns Local's result and the Remote tier is as it was. This holds for every pair
  of tiers. With a spy around each tier, the log of Local grows by the one call, and the
  log of Remote grows by one call when Local failed and by nothing otherwise.
\<close>

theorem TieredCache_GetBytes_fallback:
  fixes L :: "('l, 'v) Cache" and R :: "('r, 'v) Cache"
    and tc :: "('l, 'r) TieredCache"
    and stc :: "(('l, 'v) spy, ('r, 'v) spy) TieredCache"
  shows
  "(let local = GetBytes L key (tc_Local tc);
        remote = GetBytes R key (tc_Remote tc);
        local_failed = (snd (fst local) \<noteq> None);
        out = TieredCache_GetBytes L R key tc
    in fst out = (if local_failed then fst remote else fst local) \<and>
       tc_Local (snd out) = snd local \<and>
       tc_Remote (snd out) = (if local_failed then snd remote else tc_Remote tc)) \<and>
   (let local_failed = (snd (fst (GetBytes L key (inner (tc_Local stc)))) \<noteq> None);
        out = TieredCache_GetBytes (Spy L) (Spy R) key stc
    in calls (tc_Local (snd out)) = calls (tc_Local stc) @ [Call_GetBytes key] \<and>
       calls (tc_Remote (snd out)) =
         calls (tc_Remote stc) @ (if local_failed then [Call_GetBytes key] else []))"
  (is "?tiers \<and> ?spies")
proof
  show ?tiers
    unfolding Let_def TieredCache_GetBytes_unfold by simp
  show ?spies
    unfolding Let_def TieredCache_GetBytes_unfold by (simp add: Spy_GetBytes)
qed

text \<open>
  A run: Local is an empty mock, Remote is a mock holding \<open>k\<close>. The value comes from
  Remote, and each tier was called once. With \<open>k\<close> in Local as well, Local's value is
  returned and Remote's log stays empty.
\<close>

theorem TieredCache_GetBytes_fallback_witness:
  "(let out = TieredCache_GetBytes (Spy MockCache_Cache) (Spy MockCache_Cache) ''k''
                \<lparr>tc_Remote = spied_mock [''k'' \<mapsto> [1, 2]], tc_Local = spied_mock Map.empty,
                 tc_Metrics = None, tc_TracingEnabled = False\<rparr>
    in fst out = ([1, 2], None) \<and>
       calls (tc_Local (snd out)) = [Call_GetBytes ''k''] \<and>
       calls (tc_Remote (snd out)) = [Call_GetBytes ''k'']) \<and>
   (let out = TieredCache_GetBytes (Spy MockCache_Cache) (Spy MockCache_Cache) ''k''
                \<lparr>tc_Remote = spied_mock [''k'' \<mapsto> [1, 2]], tc_Local = spied_mock [''k'' \<mapsto> [7]],
                 tc_Metrics = None, tc_TracingEnabled = False\<rparr>
    in fst out = ([7], None) \<and>
       calls (tc_Local (snd out)) = [Call_GetBytes ''k''] \<and>
       calls (tc_Remote (snd out)) = [])"
  using TieredCache_GetBytes_fallback
    [of "Spy MockCache_Cache" "''k''"
        "\<lparr>tc_Remote = spied_mock [''k'' \<mapsto> [1, 2]], tc_Local = spied_mock Map.empty,
          tc_Metrics = None, tc_TracingEnabled = False\<rparr>"
        "Spy MockCache_Cache"]
  by (simp add: Let_def TieredCache_GetBytes_unfold Spy_GetBytes spied_mock_def
        MockCache_Cache_def MockCache_GetBytes_def NewMockCache_def)

subsection \<open>Write-through writes\<close>

lemma TieredCache_writes_Local:
  "tc_Local (snd (TieredCache_Set L R key v tc)) = snd (Set L key v (tc_Local tc))"
  "tc_Local (snd (TieredCache_SetBytes L R key b tc)) = snd (SetBytes L key b (tc_Local tc))"
  by (simp_all add: TieredCache_Set_unfold TieredCache_SetBytes_unfold)

text \<open>
  C2. \<open>TieredCache.Set\<close> and \<open>TieredCache.SetBytes\<close> write to Local first and call
  Remote only when the Local write returned no error. The error returned is Local's when
  Local failed and Remote's otherwise. Whatever Remote answers, the Local tier is left
  exactly as its own write left it: nothing is rolled back. With a spy around each tier,
  Local's log grows by the one write and Remote's log grows by the same write when Local
  succeeded, and by nothing otherwise. When Local is a \<open>MockCache\<close>, it holds the
  written bytes under the key afterwards, whatever Remote is and answers; when Local is a
  \<open>LocalCache\<close>, its engine is as the engine's own \<open>Set\<close> left it.
\<close>

theorem TieredCache_Set_write_through:
  fixes L :: "('l, 'v) Cache" and R :: "('r, 'v) Cache"
    and tc :: "('l, 'r) TieredCache"
    and stc :: "(('l, 'v) spy, ('r, 'v) spy) TieredCache"
    and mtc :: "('v MockCache, 'r) TieredCache"
    and ltc :: "(('e, 'v) LocalCache, 'r) TieredCache"
  shows
  "(let local = Set L key v (tc_Local tc);
        remote = Set R key v (tc_Remote tc);
        local_ok = (fst local = None);
        out = TieredCache_Set L R key v tc
    in fst out = (if local_ok then fst remote else fst local) \<and>
       tc_Local (snd out) = snd local \<and>
       tc_Remote (snd out) = (if local_ok then snd remote else tc_Remote tc)) \<and>
   (let local = SetBytes L key b (tc_Local tc);
        remote = SetBytes R key b (tc_Remote tc);
        local_ok = (fst local = None);
        out = TieredCache_SetBytes L R key b tc
    in fst out = (if local_ok then fst remote else fst local) \<and>
       tc_Local (snd out) = snd local \<and>
       tc_Remote (snd out) = (if local_ok then snd remote else tc_Remote tc)) \<and>
   (let local_ok = (fst (Set L key v (inner (tc_Local stc))) = None);
        out = TieredCache_Set (Spy L) (Spy R) key v stc
    in calls (tc_Local (snd out)) = calls (tc_Local stc) @ [Call_Set key v] \<and>
       calls (tc_Remote (snd out)) =
         calls (tc_Remote stc) @ (if local_ok then [Call_Set key v] else [])) \<and>
   (let local_ok = (fst (SetBytes L key b (inner (tc_Local stc))) = None);
        out = TieredCache_SetBytes (Spy L) (Spy R) key b stc
    in calls (tc_Local (snd out)) = calls (tc_Local stc) @ [Call_SetBytes key b] \<and>
       calls (tc_Remote (snd out)) =
         calls (tc_Remote stc) @ (if local_ok then [Call_SetBytes key b] else [])) \<and>
   ((Encode (mc_Encoder (tc_Local mtc)) v = (b, None) \<longrightarrow>
       mc_Cache (tc_Local (snd (TieredCache_Set MockCache_Cache R key v mtc))) key = Some b) \<and>
    mc_Cache (tc_Local (snd (TieredCache_SetBytes MockCache_Cache R key b mtc))) key = Some b) \<and>
   ((Encode (lc_Encoder (tc_Local ltc)) v = (b, None) \<longrightarrow>
       lc_Cache (tc_Local (snd (TieredCache_Set (LocalCache_Cache B) R key v ltc))) =
         snd (bc_Set B key b (lc_Cache (tc_Local ltc)))) \<and>
    lc_Cache (tc_Local (snd (TieredCache_SetBytes (LocalCache_Cache B) R key b ltc))) =
      snd (bc_Set B key b (lc_Cache (tc_Local ltc))))"
  (is "?set \<and> ?set_bytes \<and> ?spy_set \<and> ?spy_set_bytes \<and> ?mock \<and> ?engine")
proof -
  have set: ?set
    unfolding Let_def TieredCache_Set_unfold by simp
  have set_bytes: ?set_bytes
    unfolding Let_def TieredCache_SetBytes_unfold by simp
  have spy_set: ?spy_set
    unfolding Let_def TieredCache_Set_unfold by (simp add: Spy_Set)
  have spy_set_bytes: ?spy_set_bytes
    unfolding Let_def TieredCache_SetBytes_unfold by (simp add: Spy_SetBytes)
  have mock: ?mock
    by (simp add: TieredCache_writes_Local MockCache_Cache_def MockCache_Set_def
          MockCache_SetBytes_def)
  have engine: ?engine
    by (simp add: TieredCache_writes_Local LocalCache_Cache_def LocalCache_Set_def
          LocalCache_SetBytes_def split: prod.splits)
  show ?thesis
    by (rule conjI [OF set conjI [OF set_bytes conjI [OF spy_set
          conjI [OF spy_set_bytes conjI [OF mock engine]]]]])
qed

text \<open>
  A run: Local is an empty mock, Remote is a remote cache whose store refuses \<open>SET\<close>.
  \<open>TieredCache.Set\<close> returns the error of the store, the mock holds the value, and
  the store holds nothing.
\<close>

theorem TieredCache_Set_write_through_witness:
  "Encode (mc_Encoder (tc_Local refusing_remote)) [1, 2] = ([1, 2], None) \<and>
   fst (TieredCache_Set MockCache_Cache (RemoteCache_Cache mini_redis) ''k'' [1, 2]
          refusing_remote) = Some (Error ''connection refused'') \<and>
   mc_Cache (tc_Local (snd (TieredCache_Set MockCache_Cache (RemoteCache_Cache mini_redis)
                              ''k'' [1, 2] refusing_remote))) ''k'' = Some [1, 2] \<and>
   store (rc_cluster (tc_Remote (snd (TieredCache_Set MockCache_Cache
                                        (RemoteCache_Cache mini_redis) ''k'' [1, 2]
                                        refusing_remote)))) = []"
proof -
  have encoded: "Encode (mc_Encoder (tc_Local refusing_remote)) [1, 2] = ([1, 2], None)"
    by (simp add: refusing_remote_def NewMockCache_def plain_encoder_def GobCacheEncoder_def)
  have local_ok: "fst (Set MockCache_Cache ''k'' [1, 2] (tc_Local refusing_remote)) = None"
    using encoded by (simp add: MockCache_Cache_def MockCache_Set_def MockCache_SetBytes_def)
  have remote:
    "fst (Set (RemoteCache_Cache mini_redis) ''k'' [1, 2] (tc_Remote refusing_remote)) =
       Some (Error ''connection refused'')"
    by (simp add: RemoteCache_Cache_def RemoteCache_Set_def RemoteCache_SetBytes_def
          refusing_remote_def plain_encoder_def GobCacheEncoder_def record_outcome_def
          mini_redis_def mini_Do_def mini_empty_def StartSpan_def SetTag_def Finish_def)
  have remote_store:
    "store (rc_cluster (snd (Set (RemoteCache_Cache mini_redis) ''k'' [1, 2]
                               (tc_Remote refusing_remote)))) = []"
    by (simp add: RemoteCache_Cache_def RemoteCache_Set_def RemoteCache_SetBytes_def
          refusing_remote_def plain_encoder_def GobCacheEncoder_def record_outcome_def
          mini_redis_def mini_Do_def mini_empty_def StartSpan_def SetTag_def Finish_def)
  note write_through =
    TieredCache_Set_write_through
      [where L = MockCache_Cache and R = "RemoteCache_Cache mini_redis" and key = "''k''"
         and v = "[1, 2]" and b = "[1, 2]" and tc = refusing_remote and mtc = refusing_remote]
  have returned:
    "fst (TieredCache_Set MockCache_Cache (RemoteCache_Cache mini_redis) ''k'' [1, 2]
            refusing_remote) = Some (Error ''connection refused'')"
    and remote_after:
    "tc_Remote (snd (TieredCache_Set MockCache_Cache (RemoteCache_Cache mini_redis) ''k''
                       [1, 2] refusing_remote)) =
       snd (Set (RemoteCache_Cache mini_redis) ''k'' [1, 2] (tc_Remote refusing_remote))"
    using write_through [THEN conjunct1] by (simp_all add: Let_def local_ok remote)
  have held:
    "mc_Cache (tc_Local (snd (TieredCache_Set MockCache_Cache (RemoteCache_Cache mini_redis)
                                ''k'' [1, 2] refusing_remote))) ''k'' = Some [1, 2]"
    using write_through [THEN conjunct2, THEN conjunct2, THEN conjunct2, THEN conjunct2,
                         THEN conjunct1, THEN conjunct1]
          encoded
    by simp
  show ?thesis
    by (simp add: encoded returned held remote_after remote_store)
qed

subsection \<open>The shard count of the local tier\<close>

lemma NewCache_odd_shards:
  assumes "odd (Shards lcc)"
  shows "LocalCacheConfig_NewCache DefaultConfig NewBigCache nil lcc encoder metrics =
           (\<lparr>lc_Cache = nil, lc_Encoder = encoder, lc_Metrics = None,
              lc_TracingEnabled = lcc_TracingEnabled lcc\<rparr>,
            Some (Error (''shards must be power of 2 - '' @ decimal (unat (Shards lcc)) @
                         '' is invalid'')))"
proof -
  from assms have "Shards lcc \<noteq> 0" by auto
  moreover from assms have "Shards lcc mod 2 \<noteq> 0" by (simp add: even_iff_mod_2_eq_zero)
  ultimately show ?thesis by (simp add: LocalCacheConfig_NewCache_def)
qed

lemma NewCache_even_shards:
  assumes "even (Shards lcc)"
  shows "snd (LocalCacheConfig_NewCache DefaultConfig NewBigCache nil lcc encoder metrics) =
           snd (NewBigCache
                  (let config = DefaultConfig (Eviction lcc);
                       config = (if TTL lcc \<noteq> 0 then config\<lparr>cfg_LifeWindow := TTL lcc\<rparr>
                                 else config)
                   in if Shards lcc \<noteq> 0 then config\<lparr>cfg_Shards := sint (Shards lcc)\<rparr>
                      else config))"
proof -
  from assms have "Shards lcc mod 2 = 0" by (simp add: even_iff_mod_2_eq_zero)
  then show ?thesis
    by (simp add: LocalCacheConfig_NewCache_def Let_def split: prod.splits)
qed

text \<open>
  C3. The check of the constructor is \<open>Shards % 2 != 0\<close>: it rejects the odd shard
  counts, not the ones that are no power of two. So \<open>Shards = 6\<close>, which is no power of
  two, passes the check, and the engine constructor is called with six shards;
  \<open>Shards = 1\<close>, which is a power of two, is rejected. (\<open>Shards = 3\<close> is rejected and
  \<open>Shards = 0\<close> and \<open>Shards = 4\<close> pass.)
\<close>

theorem NewCache_shards_check_is_parity:
  "\<not> power_of_two 6 \<and>
   LocalCacheConfig_NewCache DefaultConfig NewBigCache nil
       \<lparr>Eviction = ev, TTL = 0, Shards = 6, lcc_TracingEnabled = tr\<rparr> encoder None =
     (\<lparr>lc_Cache = fst (NewBigCache ((DefaultConfig ev)\<lparr>cfg_Shards := 6\<rparr>)),
        lc_Encoder = encoder, lc_Metrics = None, lc_TracingEnabled = tr\<rparr>,
      snd (NewBigCache ((DefaultConfig ev)\<lparr>cfg_Shards := 6\<rparr>))) \<and>
   power_of_two 1 \<and>
   LocalCacheConfig_NewCache DefaultConfig NewBigCache nil
       \<lparr>Eviction = ev, TTL = 0, Shards = 1, lcc_TracingEnabled = tr\<rparr> encoder None =
     (\<lparr>lc_Cache = nil, lc_Encoder = encoder, lc_Metrics = None, lc_TracingEnabled = tr\<rparr>,
      Some (Error ''shards must be power of 2 - 1 is invalid''))"
proof (intro conjI)
  show "\<not> power_of_two 6"
    unfolding power_of_two_def by code_simp
next
  show "power_of_two 1"
    unfolding power_of_two_def by (rule bexI [of _ 0]) simp_all
next
  show "LocalCacheConfig_NewCache DefaultConfig NewBigCache nil
          \<lparr>Eviction = ev, TTL = 0, Shards = 6, lcc_TracingEnabled = tr\<rparr> encoder None =
        (\<lparr>lc_Cache = fst (NewBigCache ((DefaultConfig ev)\<lparr>cfg_Shards := 6\<rparr>)),
           lc_Encoder = encoder, lc_Metrics = None, lc_TracingEnabled = tr\<rparr>,
         snd (NewBigCache ((DefaultConfig ev)\<lparr>cfg_Shards := 6\<rparr>)))"
    by (simp add: LocalCacheConfig_NewCache_def Let_def split: prod.splits)
next
  show "LocalCacheConfig_NewCache DefaultConfig NewBigCache nil
          \<lparr>Eviction = ev, TTL = 0, Shards = 1, lcc_TracingEnabled = tr\<rparr> encoder None =
        (\<lparr>lc_Cache = nil, lc_Encoder = encoder, lc_Metrics = None, lc_TracingEnabled = tr\<rparr>,
         Some (Error ''shards must be power of 2 - 1 is invalid''))"
    by (simp add: LocalCacheConfig_NewCache_def decimal.simps digit_def)
qed

text \<open>Three more shard counts: 3 is rejected, 0 and 4 pass the check.\<close>

lemma NewCache_shards_3_0_4:
  "snd (LocalCacheConfig_NewCache DefaultConfig NewBigCache nil
          \<lparr>Eviction = ev, TTL = ttl, Shards = 3, lcc_TracingEnabled = tr\<rparr> encoder metrics) =
     Some (Error ''shards must be power of 2 - 3 is invalid'') \<and>
   snd (LocalCacheConfig_NewCache DefaultConfig NewBigCache nil
          \<lparr>Eviction = ev, TTL = 0, Shards = 0, lcc_TracingEnabled = tr\<rparr> encoder metrics) =
     snd (NewBigCache (DefaultConfig ev)) \<and>
   snd (LocalCacheConfig_NewCache DefaultConfig NewBigCache nil
          \<lparr>Eviction = ev, TTL = 0, Shards = 4, lcc_TracingEnabled = tr\<rparr> encoder metrics) =
     snd (NewBigCache ((DefaultConfig ev)\<lparr>cfg_Shards := 4\<rparr>))"
  by (simp add: LocalCacheConfig_NewCache_def decimal.simps digit_def Let_def split: prod.splits)

subsection \<open>Hit and Miss of the single tiers\<close>

lemma LocalCache_Get_unfold:
  "LocalCache_Get B key target lc =
     (let lookup = bc_Get B key (lc_Cache lc);
          lc' = lc\<lparr>lc_Cache := snd lookup,
                   lc_Metrics := record_outcome (snd (fst lookup) \<noteq> None)
                                   CacheMetrics_Miss CacheMetrics_Hit (lc_Metrics lc)\<rparr>
      in if snd (fst lookup) \<noteq> None then ((target, snd (fst lookup)), lc')
         else (Decode (lc_Encoder lc) (fst (fst lookup)) target, lc'))"
  by (auto simp add: LocalCache_Get_def LocalCache_GetBytes_def Let_def split: prod.splits)

lemma RemoteCache_GetBytes_unfold:
  "RemoteCache_GetBytes R key rc =
     (let reply = conn_Do R ''GET'' [Str key] (cluster_Get R (rc_cluster rc));
          res = redis_Bytes R (fst reply)
      in (res,
          rc\<lparr>rc_cluster := conn_Close R (snd reply),
             rc_spans :=
               Finish (SetTag ''result'' (TagS (if snd res \<noteq> None then ''miss'' else ''hit''))
                         (StartSpan (rc_TracingEnabled rc) ''remote-cache-get-bytes''
                            [(''command'', TagS ''GET''), (''key'', TagS key)]))
                 (rc_spans rc)\<rparr>))"
  by (simp add: RemoteCache_GetBytes_def Let_def split: prod.splits)

lemma RemoteCache_GetBytes_fields:
  "rc_Metrics (snd (RemoteCache_GetBytes R key rc)) = rc_Metrics rc"
  "rc_Encoder (snd (RemoteCache_GetBytes R key rc)) = rc_Encoder rc"
  by (simp_all add: RemoteCache_GetBytes_unfold Let_def)

lemma RemoteCache_Get_unfold:
  "RemoteCache_Get R key target rc =
     (let lookup = RemoteCache_GetBytes R key rc;
          rc' = (snd lookup)\<lparr>rc_Metrics := record_outcome (snd (fst lookup) \<noteq> None)
                                   CacheMetrics_Miss CacheMetrics_Hit (rc_Metrics rc)\<rparr>
      in if snd (fst lookup) \<noteq> None then ((target, snd (fst lookup)), rc')
         else (Decode (rc_Encoder rc) (fst (fst lookup)) target, rc'))"
proof -
  obtain data err rc1 where lookup: "RemoteCache_GetBytes R key rc = ((data, err), rc1)"
    by (metis surj_pair)
  have "rc_Metrics rc1 = rc_Metrics rc" and "rc_Encoder rc1 = rc_Encoder rc"
    using RemoteCache_GetBytes_fields [of R key rc] by (simp_all add: lookup)
  then show ?thesis
    by (simp add: RemoteCache_Get_def Let_def lookup)
qed

text \<open>
  What the two \<open>Get\<close> methods record is the outcome of the lookup step. With metrics
  present, a call leaves the metrics with one more Miss when \<open>GetBytes\<close> failed, and
  with one more Hit when \<open>GetBytes\<close> succeeded, whatever \<open>Decode\<close> then returns; no
  other counter moves. The error returned is the lookup's when the lookup failed, and the
  decoder's otherwise.
\<close>

theorem Get_records_lookup_outcome:
  assumes "lc_Metrics lc = Some m" and "rc_Metrics rc = Some m'"
  shows
  "(let lookup = fst (LocalCache_GetBytes B key lc);
        out = LocalCache_Get B key target lc
    in lc_Metrics (snd out) =
         Some (if snd lookup \<noteq> None then m\<lparr>misses := misses m + 1\<rparr>
               else m\<lparr>hits := hits m + 1\<rparr>) \<and>
       snd (fst out) =
         (if snd lookup \<noteq> None then snd lookup
          else snd (Decode (lc_Encoder lc) (fst lookup) target))) \<and>
   (let lookup = fst (RemoteCache_GetBytes R key rc);
        out = RemoteCache_Get R key target rc
    in rc_Metrics (snd out) =
         Some (if snd lookup \<noteq> None then m'\<lparr>misses := misses m' + 1\<rparr>
               else m'\<lparr>hits := hits m' + 1\<rparr>) \<and>
       snd (fst out) =
         (if snd lookup \<noteq> None then snd lookup
          else snd (Decode (rc_Encoder rc) (fst lookup) target)))"
  (is "?local \<and> ?remote")
proof
  have lookup: "fst (LocalCache_GetBytes B key lc) = fst (bc_Get B key (lc_Cache lc))"
    by (simp add: LocalCache_GetBytes_def split: prod.splits)
  show ?local
    using assms(1)
    by (simp add: lookup LocalCache_Get_unfold Let_def record_outcome_def
          CacheMetrics_Miss_def CacheMetrics_Hit_def)
  show ?remote
    using assms(2)
    by (simp add: RemoteCache_Get_unfold Let_def record_outcome_def
          CacheMetrics_Miss_def CacheMetrics_Hit_def)
qed

text \<open>
  A run: a lookup of the absent key \<open>zzz\<close> records one Miss on
  the local and on the remote cache.
\<close>

theorem Get_records_lookup_outcome_witness:
  "lc_Metrics undecodable_local = Some zero_metrics \<and>
   rc_Metrics undecodable_remote = Some zero_metrics \<and>
   lc_Metrics (snd (LocalCache_Get map_engine ''zzz'' [] undecodable_local)) =
     Some (zero_metrics\<lparr>misses := 1\<rparr>) \<and>
   snd (fst (LocalCache_Get map_engine ''zzz'' [] undecodable_local)) =
     Some (Error ''Entry not found'') \<and>
   rc_Metrics (snd (RemoteCache_Get mini_redis ''zzz'' [] undecodable_remote)) =
     Some (zero_metrics\<lparr>misses := 1\<rparr>) \<and>
   snd (fst (RemoteCache_Get mini_redis ''zzz'' [] undecodable_remote)) =
     Some (Error ''redigo: nil returned'')"
proof -
  have l: "lc_Metrics undecodable_local = Some zero_metrics"
    by (simp add: undecodable_local_def)
  have r: "rc_Metrics undecodable_remote = Some zero_metrics"
    by (simp add: undecodable_remote_def)
  have ll: "fst (LocalCache_GetBytes map_engine ''zzz'' undecodable_local) =
              ([], Some (Error ''Entry not found''))"
    by (simp add: LocalCache_GetBytes_def undecodable_local_def map_engine_def)
  have rl: "fst (RemoteCache_GetBytes mini_redis ''zzz'' undecodable_remote) =
              ([], Some (Error ''redigo: nil returned''))"
    by (simp add: RemoteCache_GetBytes_unfold undecodable_remote_def mini_redis_def
          mini_Do_def mini_Bytes_def mini_empty_def)
  show ?thesis
    using Get_records_lookup_outcome [OF l r, where B = map_engine and key = "''zzz''" and target = "[]" and R = mini_redis]
    by (simp add: Let_def ll rl l r zero_metrics_def)
qed

text \<open>
  C4. The code departs from the claim. With the key present and a \<open>Decode\<close> that
  fails, \<open>LocalCache.Get\<close> and \<open>RemoteCache.Get\<close> return the decode error and have
  recorded a Hit and no Miss: the outcome is recorded right after \<open>GetBytes\<close>, before
  \<open>Decode\<close> runs. The claim asks for one Miss and no Hit on this input, as
  \<open>TieredCache.Get\<close> does, which records its Miss on the error of the whole operation,
  and as \<open>TestLocalGetError\<close> expects, which stubs \<open>Decode\<close> to fail and asserts a
  Miss.
\<close>

theorem Get_decode_failure_records_Hit:
  "snd (fst (LocalCache_Get map_engine ''k'' [] undecodable_local)) =
     Some (Error ''decode error'') \<and>
   lc_Metrics (snd (LocalCache_Get map_engine ''k'' [] undecodable_local)) =
     Some (zero_metrics\<lparr>hits := 1\<rparr>) \<and>
   snd (fst (RemoteCache_Get mini_redis ''k'' [] undecodable_remote)) =
     Some (Error ''decode error'') \<and>
   rc_Metrics (snd (RemoteCache_Get mini_redis ''k'' [] undecodable_remote)) =
     Some (zero_metrics\<lparr>hits := 1\<rparr>)"
proof (intro conjI)
  show "snd (fst (LocalCache_Get map_engine ''k'' [] undecodable_local)) =
          Some (Error ''decode error'')"
    by (simp add: LocalCache_Get_unfold undecodable_local_def map_engine_def
          failing_decoder_def)
  show "lc_Metrics (snd (LocalCache_Get map_engine ''k'' [] undecodable_local)) =
          Some (zero_metrics\<lparr>hits := 1\<rparr>)"
    by (simp add: LocalCache_Get_unfold undecodable_local_def map_engine_def
          failing_decoder_def record_outcome_def CacheMetrics_Hit_def zero_metrics_def)
  show "snd (fst (RemoteCache_Get mini_redis ''k'' [] undecodable_remote)) =
          Some (Error ''decode error'')"
    by (simp add: RemoteCache_Get_unfold RemoteCache_GetBytes_unfold undecodable_remote_def
          mini_redis_def mini_Do_def mini_Bytes_def mini_empty_def failing_decoder_def)
  show "rc_Metrics (snd (RemoteCache_Get mini_redis ''k'' [] undecodable_remote)) =
          Some (zero_metrics\<lparr>hits := 1\<rparr>)"
    by (simp add: RemoteCache_Get_unfold RemoteCache_GetBytes_unfold undecodable_remote_def
          mini_redis_def mini_Do_def mini_Bytes_def mini_empty_def failing_decoder_def
          record_outcome_def CacheMetrics_Hit_def zero_metrics_def)
qed

subsection \<open>The remote delete protocol\<close>

lemma RemoteCache_Delete_unfold:
  "RemoteCache_Delete R key rc =
     (let matched = conn_Do R ''KEYS'' [Str key] (cluster_Get R (rc_cluster rc));
          keysToDelete = fst (redis_Strings R (fst matched));
          multi = conn_Send R ''MULTI'' [] (snd matched);
          dels = send_DEL R keysToDelete (fst multi) (snd multi);
          exec = conn_Do R ''EXEC'' [] (snd dels)
      in (snd (fst exec),
          rc\<lparr>rc_cluster := conn_Close R (snd exec),
             rc_Metrics := record_outcome (fst multi \<noteq> None \<or> keysToDelete = [])
                             CacheMetrics_DeleteMiss CacheMetrics_DeleteHit (rc_Metrics rc),
             rc_spans :=
               Finish
                 (SetTag ''result''
                    (TagS (if snd (fst exec) \<noteq> None then ''fail'' else ''delete''))
                    (SetTag ''num_keys'' (TagI (int (length keysToDelete)))
                       (StartSpan (rc_TracingEnabled rc) ''remote-cache-delete''
                          [(''command'', TagS ''Pipeline:KEYS:MULTI:DEL:EXEC''),
                           (''key'', TagS key)])))
                 (rc_spans rc)\<rparr>))"
  by (simp add: RemoteCache_Delete_def Let_def case_prod_beta)

text \<open>
  C5, as stated, fails: the store holds \<open>foo1\<close> and \<open>foo2\<close>, the match
  step for \<open>foo*\<close> succeeds with these two keys, the \<open>MULTI\<close> that follows is refused,
  and \<open>Delete\<close> has recorded DeleteMiss, not DeleteHit.
\<close>

theorem Delete_MULTI_failure_records_DeleteMiss:
  "redis_Strings mini_redis
     (fst (conn_Do mini_redis ''KEYS'' [Str ''foo*'']
             (cluster_Get mini_redis (rc_cluster (foo_bar_remote [''MULTI''])))))
     = ([''foo1'', ''foo2''], None) \<and>
   rc_Metrics (snd (RemoteCache_Delete mini_redis ''foo*'' (foo_bar_remote [''MULTI''])))
     = Some (zero_metrics\<lparr>deletesMisses := 1\<rparr>)"
proof (rule conjI)
  show "redis_Strings mini_redis
          (fst (conn_Do mini_redis ''KEYS'' [Str ''foo*'']
                  (cluster_Get mini_redis (rc_cluster (foo_bar_remote [''MULTI''])))))
        = ([''foo1'', ''foo2''], None)"
    by (simp add: foo_bar_remote_def mini_redis_def mini_Do_def mini_Strings_def
          mini_empty_def glob_def)
  show "rc_Metrics (snd (RemoteCache_Delete mini_redis ''foo*'' (foo_bar_remote [''MULTI''])))
        = Some (zero_metrics\<lparr>deletesMisses := 1\<rparr>)"
    by (simp add: RemoteCache_Delete_def Let_def foo_bar_remote_def mini_redis_def
          mini_Do_def mini_Send_def mini_Strings_def mini_empty_def glob_def
          StartSpan_def SetTag_def Finish_def
          record_outcome_def CacheMetrics_DeleteMiss_def zero_metrics_def)
qed

text \<open>
  C5, amended. With metrics \<open>m\<close>, \<open>RemoteCache.Delete\<close> records DeleteMiss exactly when
  the match step returned no key or the \<open>MULTI\<close> send failed, and DeleteHit otherwise.
  The error of the match step is overwritten before it is looked at; when the reply
  helper returns no key together with an error, as \<open>redis.Strings\<close> does, a failed
  match step is among the cases that return no key, and so DeleteMiss is recorded
  exactly when the match step fails, or yields no key, or the \<open>MULTI\<close> send fails.
\<close>

theorem Delete_records_match_and_MULTI_outcome:
  assumes "rc_Metrics rc = Some m"
  shows
  "(let matched = conn_Do R ''KEYS'' [Str key] (cluster_Get R (rc_cluster rc));
        keysToDelete = fst (redis_Strings R (fst matched));
        match_err = snd (redis_Strings R (fst matched));
        multi_err = fst (conn_Send R ''MULTI'' [] (snd matched));
        recorded = rc_Metrics (snd (RemoteCache_Delete R key rc))
    in recorded =
         Some (if keysToDelete = [] \<or> multi_err \<noteq> None
               then m\<lparr>deletesMisses := deletesMisses m + 1\<rparr>
               else m\<lparr>deletesHits := deletesHits m + 1\<rparr>) \<and>
       ((match_err \<noteq> None \<longrightarrow> keysToDelete = []) \<longrightarrow>
        recorded =
          Some (if match_err \<noteq> None \<or> keysToDelete = [] \<or> multi_err \<noteq> None
                then m\<lparr>deletesMisses := deletesMisses m + 1\<rparr>
                else m\<lparr>deletesHits := deletesHits m + 1\<rparr>)))"
proof -
  let ?matched = "conn_Do R ''KEYS'' [Str key] (cluster_Get R (rc_cluster rc))"
  let ?keys = "fst (redis_Strings R (fst ?matched))"
  let ?multi_err = "fst (conn_Send R ''MULTI'' [] (snd ?matched))"
  have "rc_Metrics (snd (RemoteCache_Delete R key rc)) =
          record_outcome (?multi_err \<noteq> None \<or> ?keys = [])
            CacheMetrics_DeleteMiss CacheMetrics_DeleteHit (rc_Metrics rc)"
    by (simp add: RemoteCache_Delete_unfold Let_def)
  with assms have recorded:
    "rc_Metrics (snd (RemoteCache_Delete R key rc)) =
       Some (if ?keys = [] \<or> ?multi_err \<noteq> None
             then m\<lparr>deletesMisses := deletesMisses m + 1\<rparr>
             else m\<lparr>deletesHits := deletesHits m + 1\<rparr>)"
    by (auto simp add: record_outcome_def CacheMetrics_DeleteMiss_def
          CacheMetrics_DeleteHit_def)
  show ?thesis
    unfolding Let_def recorded by auto
qed

text \<open>
  Runs of the amended statement on the store holding \<open>foo1\<close>, \<open>foo2\<close> and \<open>bar\<close>:
  \<open>Delete("foo*")\<close> removes the two keys, keeps \<open>bar\<close> and records DeleteHit.
\<close>

theorem Delete_records_match_and_MULTI_outcome_witness:
  "rc_Metrics (foo_bar_remote []) = Some zero_metrics \<and>
   rc_Metrics (snd (RemoteCache_Delete mini_redis ''foo*'' (foo_bar_remote [])))
     = Some (zero_metrics\<lparr>deletesHits := 1\<rparr>) \<and>
   store (rc_cluster (snd (RemoteCache_Delete mini_redis ''foo*'' (foo_bar_remote []))))
     = [(''bar'', [99])]"
proof -
  have m: "rc_Metrics (foo_bar_remote []) = Some zero_metrics"
    by (simp add: foo_bar_remote_def)
  have keys: "redis_Strings mini_redis
                (fst (conn_Do mini_redis ''KEYS'' [Str ''foo*'']
                        (cluster_Get mini_redis (rc_cluster (foo_bar_remote [])))))
              = ([''foo1'', ''foo2''], None)"
    by (simp add: foo_bar_remote_def mini_redis_def mini_Do_def mini_Strings_def
          mini_empty_def glob_def)
  have multi: "fst (conn_Send mini_redis ''MULTI'' []
                 (snd (conn_Do mini_redis ''KEYS'' [Str ''foo*'']
                         (cluster_Get mini_redis (rc_cluster (foo_bar_remote []))))))
               = None"
    by (simp add: foo_bar_remote_def mini_redis_def mini_Do_def mini_Send_def mini_empty_def)
  have st: "store (rc_cluster (snd (RemoteCache_Delete mini_redis ''foo*'' (foo_bar_remote []))))
              = [(''bar'', [99])]"
    by (simp add: RemoteCache_Delete_def Let_def foo_bar_remote_def mini_redis_def
          mini_Do_def mini_Send_def mini_Strings_def mini_empty_def glob_def
          StartSpan_def SetTag_def Finish_def)
  show ?thesis
    using Delete_records_match_and_MULTI_outcome [OF m, of mini_redis "''foo*''"]
    by (simp add: Let_def keys multi m st zero_metrics_def)
qed

text \<open>
  C6. When the match step of \<open>RemoteCache.Delete\<close> fails, \<open>Delete\<close> goes on: it sends
  \<open>MULTI\<close> on the connection as the match step left it, queues a \<open>DEL\<close> for each key
  the reply helper still returned (none, when it returns no key with an error), runs
  \<open>EXEC\<close>, and closes the connection. The error it returns is the error of \<open>EXEC\<close>; the
  error of the match step is not part of the result.
\<close>

theorem Delete_match_failure_still_executes_batch:
  assumes "snd (redis_Strings R
                  (fst (conn_Do R ''KEYS'' [Str key] (cluster_Get R (rc_cluster rc))))) = Some e"
  shows
  "(let matched = conn_Do R ''KEYS'' [Str key] (cluster_Get R (rc_cluster rc));
        keysToDelete = fst (redis_Strings R (fst matched));
        multi = conn_Send R ''MULTI'' [] (snd matched);
        dels = send_DEL R keysToDelete (fst multi) (snd multi);
        exec = conn_Do R ''EXEC'' [] (snd dels);
        out = RemoteCache_Delete R key rc
    in fst out = snd (fst exec) \<and>
       rc_cluster (snd out) = conn_Close R (snd exec) \<and>
       (keysToDelete = [] \<longrightarrow>
        rc_cluster (snd out) = conn_Close R (snd (conn_Do R ''EXEC'' [] (snd multi)))))"
proof -
  let ?matched = "conn_Do R ''KEYS'' [Str key] (cluster_Get R (rc_cluster rc))"
  let ?keys = "fst (redis_Strings R (fst ?matched))"
  let ?multi = "conn_Send R ''MULTI'' [] (snd ?matched)"
  let ?exec = "conn_Do R ''EXEC'' [] (snd (send_DEL R ?keys (fst ?multi) (snd ?multi)))"
  have returned: "fst (RemoteCache_Delete R key rc) = snd (fst ?exec)"
    by (simp add: RemoteCache_Delete_unfold Let_def)
  have connection: "rc_cluster (snd (RemoteCache_Delete R key rc)) = conn_Close R (snd ?exec)"
    by (simp add: RemoteCache_Delete_unfold Let_def)
  have no_keys: "snd (send_DEL R ?keys (fst ?multi) (snd ?multi)) = snd ?multi" if "?keys = []"
    using that by simp
  show ?thesis
    unfolding Let_def using returned connection no_keys by simp
qed

text \<open>
  A run: the store refuses \<open>KEYS\<close> and nothing else. It has received \<open>KEYS\<close>, \<open>MULTI\<close>
  and \<open>EXEC\<close>, in this order; \<open>EXEC\<close> succeeded, and \<open>Delete\<close> returns no error.
\<close>

theorem Delete_match_failure_still_executes_batch_witness:
  "snd (redis_Strings mini_redis
          (fst (conn_Do mini_redis ''KEYS'' [Str ''foo*'']
                  (cluster_Get mini_redis (rc_cluster (foo_bar_remote [''KEYS'']))))))
     = Some (Error ''connection refused'') \<and>
   fst (RemoteCache_Delete mini_redis ''foo*'' (foo_bar_remote [''KEYS''])) = None \<and>
   received (rc_cluster (snd (RemoteCache_Delete mini_redis ''foo*'' (foo_bar_remote [''KEYS'']))))
     = [''KEYS'', ''MULTI'', ''EXEC'']"
proof -
  have failed: "snd (redis_Strings mini_redis
                  (fst (conn_Do mini_redis ''KEYS'' [Str ''foo*'']
                          (cluster_Get mini_redis (rc_cluster (foo_bar_remote [''KEYS'']))))))
                = Some (Error ''connection refused'')"
    by (simp add: foo_bar_remote_def mini_redis_def mini_Do_def mini_Strings_def mini_empty_def)
  have keys: "fst (redis_Strings mini_redis
                  (fst (conn_Do mini_redis ''KEYS'' [Str ''foo*'']
                          (cluster_Get mini_redis (rc_cluster (foo_bar_remote [''KEYS'']))))))
                = []"
    by (simp add: foo_bar_remote_def mini_redis_def mini_Do_def mini_Strings_def mini_empty_def)
  have exec_err:
    "snd (fst (conn_Do mini_redis ''EXEC'' []
       (snd (conn_Send mini_redis ''MULTI'' []
          (snd (conn_Do mini_redis ''KEYS'' [Str ''foo*'']
             (cluster_Get mini_redis (rc_cluster (foo_bar_remote [''KEYS''])))))))))
     = None"
    by (simp add: foo_bar_remote_def mini_redis_def mini_Do_def mini_Send_def mini_empty_def)
  have exec_log:
    "received (snd (conn_Do mini_redis ''EXEC'' []
       (snd (conn_Send mini_redis ''MULTI'' []
          (snd (conn_Do mini_redis ''KEYS'' [Str ''foo*'']
             (cluster_Get mini_redis (rc_cluster (foo_bar_remote [''KEYS''])))))))))
     = [''KEYS'', ''MULTI'', ''EXEC'']"
    by (simp add: foo_bar_remote_def mini_redis_def mini_Do_def mini_Send_def mini_empty_def)
  have close: "conn_Close mini_redis s = s" for s
    by (simp add: mini_redis_def)
  show ?thesis
    using Delete_match_failure_still_executes_batch [OF failed]
    by (simp add: Let_def failed keys exec_err exec_log close)
qed

subsection \<open>Round trip\<close>

lemma GobCacheEncoder_round_trip:
  assumes "gob_Encode v = (b, None)" and "gob_Decode b t = (v, None)"
  shows "Encode (GobCacheEncoder gob_Encode gob_Decode) v = (b, None)"
    and "Decode (GobCacheEncoder gob_Encode gob_Decode) b t = (v, None)"
  using assms by (simp_all add: GobCacheEncoder_def)

lemma LocalCache_round_trip:
  assumes "Encode (lc_Encoder lc) v = (b, None)"
    and "Decode (lc_Encoder lc) b t = (v, None)"
    and "bc_Set B k b (lc_Cache lc) = (None, e1)"
    and "bc_Get B k e1 = ((b, None), e2)"
  shows "fst (LocalCache_Set B k v lc) = None"
    and "fst (LocalCache_Get B k t (snd (LocalCache_Set B k v lc))) = (v, None)"
proof -
  have set: "LocalCache_Set B k v lc =
               (None, lc\<lparr>lc_Metrics := record_outcome False CacheMetrics_SetCollision
                                          CacheMetrics_Set (lc_Metrics lc),
                          lc_Cache := e1\<rparr>)"
    using assms(1,3) by (simp add: LocalCache_Set_def LocalCache_SetBytes_def)
  show "fst (LocalCache_Set B k v lc) = None"
    by (simp add: set)
  show "fst (LocalCache_Get B k t (snd (LocalCache_Set B k v lc))) = (v, None)"
    using assms(2,4) by (simp add: set LocalCache_Get_def LocalCache_GetBytes_def)
qed

lemma RemoteCache_round_trip:
  assumes "Encode (rc_Encoder rc) v = (b, None)"
    and "Decode (rc_Encoder rc) b t = (v, None)"
    and "conn_Do R ''SET'' [Str k, Bytes b] (cluster_Get R (rc_cluster rc)) = ((rep, None), c1)"
    and "redis_Bytes R (fst (conn_Do R ''GET'' [Str k] (cluster_Get R (conn_Close R c1)))) =
           (b, None)"
  shows "fst (RemoteCache_Set R k v rc) = None"
    and "fst (RemoteCache_Get R k t (snd (RemoteCache_Set R k v rc))) = (v, None)"
proof -
  obtain rc1 where set: "RemoteCache_Set R k v rc = (None, rc1)"
    and cluster: "rc_cluster rc1 = conn_Close R c1"
    and encoder: "rc_Encoder rc1 = rc_Encoder rc"
    using assms(1,3) by (simp add: RemoteCache_Set_def RemoteCache_SetBytes_def Let_def)
  show "fst (RemoteCache_Set R k v rc) = None"
    by (simp add: set)
  have "fst (RemoteCache_GetBytes R k rc1) = (b, None)"
    using assms(4) by (simp add: RemoteCache_GetBytes_unfold Let_def cluster)
  then show "fst (RemoteCache_Get R k t (snd (RemoteCache_Set R k v rc))) = (v, None)"
    using assms(2) by (simp add: set RemoteCache_Get_unfold Let_def encoder)
qed

lemma TieredCache_round_trip:
  assumes "fst (Set L k v (tc_Local tc)) = None"
    and "fst (Set R k v (tc_Remote tc)) = None"
    and "fst (Get L k t (snd (Set L k v (tc_Local tc)))) = (v, None)"
  shows "fst (TieredCache_Set L R k v tc) = None"
    and "fst (TieredCache_Get L R k t (snd (TieredCache_Set L R k v tc))) = (v, None)"
  using assms by (simp_all add: TieredCache_Set_unfold TieredCache_Get_unfold)

text \<open>
  C7, as stated, fails: that \<open>v\<close> is encodable is not enough. With
  \<open>MockCacheEncoder\<close>, the fake encoder of the package, the value \<open>[1, 2]\<close> is encoded,
  \<open>Set\<close> and \<open>Get\<close> on the local cache both succeed, and the target holds \<open>[9]\<close> as
  before, since this \<open>Decode\<close> does not write to it. With the gob encoder and a store
  that refuses \<open>SET\<close>, the value \<open>[1, 2]\<close> is encoded, \<open>Set\<close> on the remote cache
  returns the store's error and the \<open>Get\<close> that follows fails as well.
\<close>

theorem Set_then_Get_without_round_trip:
  "Encode (lc_Encoder mock_encoded_local) [1, 2] = ([1, 2], None) \<and>
   fst (LocalCache_Set map_engine ''k'' [1, 2] mock_encoded_local) = None \<and>
   fst (LocalCache_Get map_engine ''k'' [9]
          (snd (LocalCache_Set map_engine ''k'' [1, 2] mock_encoded_local))) = ([9], None) \<and>
   Encode (rc_Encoder (tc_Remote refusing_remote)) [1, 2] = ([1, 2], None) \<and>
   fst (RemoteCache_Set mini_redis ''k'' [1, 2] (tc_Remote refusing_remote)) =
     Some (Error ''connection refused'') \<and>
   snd (fst (RemoteCache_Get mini_redis ''k'' []
               (snd (RemoteCache_Set mini_redis ''k'' [1, 2] (tc_Remote refusing_remote))))) =
     Some (Error ''redigo: nil returned'')"
proof -
  have encoded: "Encode (lc_Encoder mock_encoded_local) [1, 2] = ([1, 2], None)"
    by (simp add: mock_encoded_local_def MockCacheEncoder_def)
  have stored:
    "LocalCache_Set map_engine ''k'' [1, 2] mock_encoded_local =
       (None, mock_encoded_local\<lparr>lc_Cache := [''k'' \<mapsto> [1, 2]]\<rparr>)"
    by (simp add: LocalCache_Set_def LocalCache_SetBytes_def mock_encoded_local_def
          MockCacheEncoder_def map_engine_def record_outcome_def)
  have read:
    "fst (LocalCache_Get map_engine ''k'' [9]
            (mock_encoded_local\<lparr>lc_Cache := [''k'' \<mapsto> [1, 2]]\<rparr>)) = ([9], None)"
    by (simp add: LocalCache_Get_def LocalCache_GetBytes_def mock_encoded_local_def
          MockCacheEncoder_def map_engine_def record_outcome_def)
  have gob: "Encode (rc_Encoder (tc_Remote refusing_remote)) [1, 2] = ([1, 2], None)"
    by (simp add: refusing_remote_def plain_encoder_def GobCacheEncoder_def)
  have refused:
    "RemoteCache_Set mini_redis ''k'' [1, 2] (tc_Remote refusing_remote) =
       (Some (Error ''connection refused''),
        (tc_Remote refusing_remote)
          \<lparr>rc_cluster := mini_empty\<lparr>failing := [''SET''], received := [''SET'']\<rparr>\<rparr>)"
    by (simp add: RemoteCache_Set_def RemoteCache_SetBytes_def refusing_remote_def
          plain_encoder_def GobCacheEncoder_def mini_redis_def mini_Do_def mini_empty_def
          record_outcome_def StartSpan_def SetTag_def Finish_def Let_def)
  have absent:
    "snd (fst (RemoteCache_Get mini_redis ''k'' []
                 ((tc_Remote refusing_remote)
                    \<lparr>rc_cluster := mini_empty\<lparr>failing := [''SET''], received := [''SET'']\<rparr>\<rparr>))) =
       Some (Error ''redigo: nil returned'')"
    by (simp add: RemoteCache_Get_def RemoteCache_GetBytes_def refusing_remote_def
          mini_redis_def mini_Do_def mini_Bytes_def mini_empty_def record_outcome_def
          StartSpan_def SetTag_def Finish_def Let_def)
  show ?thesis
    by (simp add: encoded stored read gob refused absent)
qed

text \<open>
  C7, amended. Let the encoder encode \<open>v\<close> to the bytes \<open>b\<close> and decode \<open>b\<close> back to \<open>v\<close>
  (\<open>v\<close> is encodable and the encoding round-trips), let the local engine accept the
  write of \<open>b\<close> under \<open>k\<close> and then return \<open>b\<close> for \<open>k\<close>, and let the store accept
  \<open>SET k b\<close> and then answer \<open>GET k\<close> with \<open>b\<close>. Then \<open>Set(k, v)\<close> followed by
  \<open>Get(k, target)\<close> succeeds and leaves \<open>v\<close> behind \<open>target\<close>, on the local cache alone,
  on the remote cache alone, and on the tiered cache made of the two.
\<close>

theorem Set_then_Get_round_trip:
  assumes encode: "Encode enc v = (b, None)"
    and decode: "Decode enc b t = (v, None)"
    and lc: "lc_Encoder lc = enc"
    and rc: "rc_Encoder rc = enc"
    and engine_set: "bc_Set B k b (lc_Cache lc) = (None, e1)"
    and engine_get: "bc_Get B k e1 = ((b, None), e2)"
    and store_set:
      "conn_Do R ''SET'' [Str k, Bytes b] (cluster_Get R (rc_cluster rc)) = ((rep, None), c1)"
    and store_get:
      "redis_Bytes R (fst (conn_Do R ''GET'' [Str k] (cluster_Get R (conn_Close R c1)))) =
         (b, None)"
  shows
  "(fst (LocalCache_Set B k v lc) = None \<and>
    fst (LocalCache_Get B k t (snd (LocalCache_Set B k v lc))) = (v, None)) \<and>
   (fst (RemoteCache_Set R k v rc) = None \<and>
    fst (RemoteCache_Get R k t (snd (RemoteCache_Set R k v rc))) = (v, None)) \<and>
   (let L = LocalCache_Cache B; R' = RemoteCache_Cache R;
        tc = \<lparr>tc_Remote = rc, tc_Local = lc, tc_Metrics = tm, tc_TracingEnabled = tr\<rparr>
    in fst (TieredCache_Set L R' k v tc) = None \<and>
       fst (TieredCache_Get L R' k t (snd (TieredCache_Set L R' k v tc))) = (v, None))"
proof -
  have local: "fst (LocalCache_Set B k v lc) = None"
    "fst (LocalCache_Get B k t (snd (LocalCache_Set B k v lc))) = (v, None)"
    using LocalCache_round_trip [of lc v b t B k e1 e2] encode decode lc engine_set engine_get
    by simp_all
  have remote: "fst (RemoteCache_Set R k v rc) = None"
    "fst (RemoteCache_Get R k t (snd (RemoteCache_Set R k v rc))) = (v, None)"
    using RemoteCache_round_trip [of rc v b t R k rep c1] encode decode rc store_set store_get
    by simp_all
  have tiered:
    "fst (TieredCache_Set (LocalCache_Cache B) (RemoteCache_Cache R) k v
            \<lparr>tc_Remote = rc, tc_Local = lc, tc_Metrics = tm, tc_TracingEnabled = tr\<rparr>) = None \<and>
     fst (TieredCache_Get (LocalCache_Cache B) (RemoteCache_Cache R) k t
            (snd (TieredCache_Set (LocalCache_Cache B) (RemoteCache_Cache R) k v
                    \<lparr>tc_Remote = rc, tc_Local = lc, tc_Metrics = tm, tc_TracingEnabled = tr\<rparr>)))
       = (v, None)"
    using TieredCache_round_trip
      [of "LocalCache_Cache B" k v
          "\<lparr>tc_Remote = rc, tc_Local = lc, tc_Metrics = tm, tc_TracingEnabled = tr\<rparr>"
          "RemoteCache_Cache R" t]
      local remote
    by (simp add: LocalCache_Cache_def RemoteCache_Cache_def)
  show ?thesis
    using local remote tiered by (simp add: Let_def)
qed

text \<open>
  A run of the amended statement: the key \<open>k\<close> and the value \<open>[1, 2]\<close> on an empty
  local cache over the map engine, on a remote cache over the small store, and on the
  tiered cache made of both.
\<close>

theorem Set_then_Get_round_trip_witness:
  "fst (LocalCache_Get map_engine ''k'' []
          (snd (LocalCache_Set map_engine ''k'' [1, 2] empty_local))) = ([1, 2], None) \<and>
   fst (RemoteCache_Get mini_redis ''k'' []
          (snd (RemoteCache_Set mini_redis ''k'' [1, 2] (foo_bar_remote [])))) = ([1, 2], None) \<and>
   fst (TieredCache_Get (LocalCache_Cache map_engine) (RemoteCache_Cache mini_redis) ''k'' []
          (snd (TieredCache_Set (LocalCache_Cache map_engine) (RemoteCache_Cache mini_redis)
                  ''k'' [1, 2]
                  \<lparr>tc_Remote = foo_bar_remote [], tc_Local = empty_local,
                   tc_Metrics = None, tc_TracingEnabled = False\<rparr>))) = ([1, 2], None)"
proof -
  have encode: "Encode plain_encoder [1, 2] = ([1, 2], None)"
    by (simp add: plain_encoder_def GobCacheEncoder_def)
  have decode: "Decode plain_encoder [1, 2] [] = ([1, 2], None)"
    by (simp add: plain_encoder_def GobCacheEncoder_def)
  have lc: "lc_Encoder empty_local = plain_encoder"
    by (simp add: empty_local_def)
  have rc: "rc_Encoder (foo_bar_remote []) = plain_encoder"
    by (simp add: foo_bar_remote_def)
  have engine_set:
    "bc_Set map_engine ''k'' [1, 2] (lc_Cache empty_local) = (None, [''k'' \<mapsto> [1, 2]])"
    by (simp add: map_engine_def empty_local_def)
  have engine_get:
    "bc_Get map_engine ''k'' [''k'' \<mapsto> [1, 2]] = (([1, 2], None), [''k'' \<mapsto> [1, 2]])"
    by (simp add: map_engine_def)
  have "fst (conn_Do mini_redis ''SET'' [Str ''k'', Bytes [1, 2]]
               (cluster_Get mini_redis (rc_cluster (foo_bar_remote [])))) = (Ok_reply, None)"
    by (simp add: mini_redis_def mini_Do_def foo_bar_remote_def mini_empty_def)
  then have store_set:
    "conn_Do mini_redis ''SET'' [Str ''k'', Bytes [1, 2]]
       (cluster_Get mini_redis (rc_cluster (foo_bar_remote []))) =
     ((Ok_reply, None),
      snd (conn_Do mini_redis ''SET'' [Str ''k'', Bytes [1, 2]]
             (cluster_Get mini_redis (rc_cluster (foo_bar_remote [])))))"
    by (metis prod.collapse)
  have store_get:
    "redis_Bytes mini_redis
       (fst (conn_Do mini_redis ''GET'' [Str ''k'']
               (cluster_Get mini_redis
                  (conn_Close mini_redis
                     (snd (conn_Do mini_redis ''SET'' [Str ''k'', Bytes [1, 2]]
                             (cluster_Get mini_redis (rc_cluster (foo_bar_remote []))))))))) =
     ([1, 2], None)"
    by (simp add: mini_redis_def mini_Do_def mini_Bytes_def foo_bar_remote_def mini_empty_def)
  show ?thesis
    using Set_then_Get_round_trip
      [OF encode decode lc rc engine_set engine_get store_set store_get,
       where tm = None and tr = False]
    by (simp add: Let_def)
qed

subsection \<open>No promotion\<close>

lemma MockCache_reads_pure:
  "snd (MockCache_GetBytes key mc) = mc" "snd (MockCache_Get key t mc) = mc"
  by (simp_all add: MockCache_Get_def MockCache_GetBytes_def split: option.splits)

lemma LocalCache_reads_engine:
  "lc_Cache (snd (LocalCache_GetBytes B key lc)) = snd (bc_Get B key (lc_Cache lc))"
  "lc_Cache (snd (LocalCache_Get B key t lc)) = snd (bc_Get B key (lc_Cache lc))"
  by (simp_all add: LocalCache_Get_unfold Let_def LocalCache_GetBytes_def split: prod.splits)

lemma TieredCache_reads_Local:
  "tc_Local (snd (TieredCache_Get L R key t tc)) = snd (Get L key t (tc_Local tc))"
  "tc_Local (snd (TieredCache_GetBytes L R key tc)) = snd (GetBytes L key (tc_Local tc))"
  by (simp_all add: TieredCache_Get_unfold TieredCache_GetBytes_unfold)

text \<open>
  C8. Let the Local tier not hold the key: its lookup fails. Then \<open>TieredCache.Get\<close> and
  \<open>TieredCache.GetBytes\<close> return what Remote returns, and the Local tier is left
  exactly as its own failed lookup left it: the tiered cache writes nothing into it.
  With a spy around the tiers, the only call Local receives is the one read. When Local
  is a \<open>MockCache\<close>, whose reads change nothing, Local is unchanged; when Local is a
  \<open>LocalCache\<close>, its engine has seen one lookup and nothing else.
\<close>

theorem TieredCache_Get_no_promotion:
  fixes L :: "('l, 'v) Cache" and R :: "('r, 'v) Cache"
    and tc :: "('l, 'r) TieredCache"
    and stc :: "(('l, 'v) spy, ('r, 'v) spy) TieredCache"
    and mtc :: "('v MockCache, 'r) TieredCache"
    and ltc :: "(('e, 'v) LocalCache, 'r) TieredCache"
  assumes miss: "snd (fst (Get L key t (tc_Local tc))) \<noteq> None"
    and miss_bytes: "snd (fst (GetBytes L key (tc_Local tc))) \<noteq> None"
  shows
  "(let local = Get L key t (tc_Local tc);
        remote = Get R key (fst (fst local)) (tc_Remote tc);
        out = TieredCache_Get L R key t tc
    in fst out = fst remote \<and> tc_Local (snd out) = snd local) \<and>
   (let local = GetBytes L key (tc_Local tc);
        remote = GetBytes R key (tc_Remote tc);
        out = TieredCache_GetBytes L R key tc
    in fst out = fst remote \<and> tc_Local (snd out) = snd local) \<and>
   calls (tc_Local (snd (TieredCache_Get (Spy L) (Spy R) key t stc))) =
     calls (tc_Local stc) @ [Call_Get key] \<and>
   calls (tc_Local (snd (TieredCache_GetBytes (Spy L) (Spy R) key stc))) =
     calls (tc_Local stc) @ [Call_GetBytes key] \<and>
   tc_Local (snd (TieredCache_Get MockCache_Cache R key t mtc)) = tc_Local mtc \<and>
   tc_Local (snd (TieredCache_GetBytes MockCache_Cache R key mtc)) = tc_Local mtc \<and>
   lc_Cache (tc_Local (snd (TieredCache_Get (LocalCache_Cache B) R key t ltc))) =
     snd (bc_Get B key (lc_Cache (tc_Local ltc))) \<and>
   lc_Cache (tc_Local (snd (TieredCache_GetBytes (LocalCache_Cache B) R key ltc))) =
     snd (bc_Get B key (lc_Cache (tc_Local ltc)))"
  (is "?get \<and> ?get_bytes \<and> ?spy_get \<and> ?spy_get_bytes \<and> ?mock_get \<and> ?mock_get_bytes \<and>
       ?engine_get \<and> ?engine_get_bytes")
proof (intro conjI)
  show ?get
    by (simp add: Let_def TieredCache_Get_unfold miss)
  show ?get_bytes
    by (simp add: Let_def TieredCache_GetBytes_unfold miss_bytes)
  show ?spy_get
    by (simp add: TieredCache_reads_Local Spy_Get)
  show ?spy_get_bytes
    by (simp add: TieredCache_reads_Local Spy_GetBytes)
  show ?mock_get
    by (simp add: TieredCache_reads_Local MockCache_Cache_def MockCache_reads_pure)
  show ?mock_get_bytes
    by (simp add: TieredCache_reads_Local MockCache_Cache_def MockCache_reads_pure)
  show ?engine_get
    by (simp add: TieredCache_reads_Local LocalCache_Cache_def LocalCache_reads_engine)
  show ?engine_get_bytes
    by (simp add: TieredCache_reads_Local LocalCache_Cache_def LocalCache_reads_engine)
qed

text \<open>
  A run: only the Remote mock holds \<open>k\<close>. \<open>TieredCache.Get\<close> returns Remote's value, and
  the Local mock still does not hold \<open>k\<close> afterwards.
\<close>

theorem TieredCache_Get_no_promotion_witness:
  "fst (TieredCache_Get MockCache_Cache MockCache_Cache ''k'' [] remote_only) = ([1, 2], None) \<and>
   mc_Cache (tc_Local remote_only) ''k'' = None \<and>
   mc_Cache (tc_Local (snd (TieredCache_Get MockCache_Cache MockCache_Cache ''k'' []
                              remote_only))) ''k'' = None"
proof -
  have miss: "snd (fst (Get MockCache_Cache ''k'' [] (tc_Local remote_only))) \<noteq> None"
    by (simp add: MockCache_Cache_def MockCache_Get_def MockCache_GetBytes_def NewMockCache_def
          remote_only_def)
  have miss_bytes: "snd (fst (GetBytes MockCache_Cache ''k'' (tc_Local remote_only))) \<noteq> None"
    by (simp add: MockCache_Cache_def MockCache_GetBytes_def NewMockCache_def remote_only_def)
  have target: "fst (fst (Get MockCache_Cache ''k'' [] (tc_Local remote_only))) = []"
    by (simp add: MockCache_Cache_def MockCache_Get_def MockCache_GetBytes_def NewMockCache_def
          remote_only_def)
  have remote: "fst (Get MockCache_Cache ''k'' [] (tc_Remote remote_only)) = ([1, 2], None)"
    by (simp add: MockCache_Cache_def MockCache_Get_def MockCache_GetBytes_def NewMockCache_def
          plain_encoder_def GobCacheEncoder_def remote_only_def)
  have local: "mc_Cache (tc_Local remote_only) ''k'' = None"
    by (simp add: NewMockCache_def remote_only_def)
  note no_promotion =
    TieredCache_Get_no_promotion
      [where L = MockCache_Cache and R = MockCache_Cache and key = "''k''" and t = "[]"
         and tc = remote_only and mtc = remote_only,
       OF miss miss_bytes]
  have returned:
    "fst (TieredCache_Get MockCache_Cache MockCache_Cache ''k'' [] remote_only) = ([1, 2], None)"
    using no_promotion [THEN conjunct1] by (simp add: Let_def remote target)
  have unchanged:
    "tc_Local (snd (TieredCache_Get MockCache_Cache MockCache_Cache ''k'' [] remote_only)) =
       tc_Local remote_only"
    using no_promotion [THEN conjunct2, THEN conjunct2, THEN conjunct2, THEN conjunct2,
                        THEN conjunct1]
    by simp
  show ?thesis
    by (simp add: returned unchanged local)
qed

subsection \<open>The shared pool is created once and closed once\<close>

lemma replay_append: "replay R (evs @ evs') = foldl (pool_apply R) (replay R evs) evs'"
  by (simp add: replay_def)

lemma pool_invariant_init: "pool_invariant R sharedCluster_init"
  by (simp add: pool_invariant_def sharedCluster_init_def replay_def creations_def created_def
        closings_def)

text \<open>What one constructor call and one \<open>Close\<close> call make of the flags and of the log.\<close>

lemma RemoteCacheConfig_NewCache_shared:
  "onceCreate (snd (RemoteCacheConfig_NewCache R rcc encoder metrics sc)) = True"
  "onceClose (snd (RemoteCacheConfig_NewCache R rcc encoder metrics sc)) = onceClose sc"
  "created (snd (RemoteCacheConfig_NewCache R rcc encoder metrics sc)) =
     (if onceCreate sc then created sc
      else created sc @ [PoolCreated (URLs rcc) (Timeout rcc)])"
  "closings (snd (RemoteCacheConfig_NewCache R rcc encoder metrics sc)) = closings sc"
  by (auto simp add: RemoteCacheConfig_NewCache_def Let_def created_def closings_def
        split: prod.splits option.splits)

lemma RemoteCache_Close_shared:
  "onceCreate (snd (RemoteCache_Close R rc sc)) = onceCreate sc"
  "onceClose (snd (RemoteCache_Close R rc sc)) = True"
  "created (snd (RemoteCache_Close R rc sc)) = created sc"
  "closings (snd (RemoteCache_Close R rc sc)) =
     closings sc + (if \<not> onceClose sc \<and> sc_cluster sc \<noteq> None then 1 else 0)"
  by (auto simp add: RemoteCache_Close_def created_def closings_def split: option.splits)

lemma TieredCacheConfig_NewCache_shared:
  "snd (TieredCacheConfig_NewCache D N nil R tcc encoder metrics lm rm sc) =
     snd (RemoteCacheConfig_NewCache R (RemoteConfig tcc) encoder rm sc)"
  by (simp add: TieredCacheConfig_NewCache_def Let_def split: prod.splits sum.splits)

lemma TieredCache_Close_shared:
  "snd (TieredCache_Close R tc sc) =
     (case tc_Remote tc of
        RemoteCache_value rc \<Rightarrow> snd (RemoteCache_Close R rc sc)
      | _ \<Rightarrow> sc)"
  by (simp add: TieredCache_Close_def split: Cache_value.splits)

text \<open>The cluster stays what the logged operations make of the nil pointer.\<close>

lemma NewCache_replay:
  assumes "sc_cluster sc = replay R (pool_history sc)"
  shows "sc_cluster (snd (RemoteCacheConfig_NewCache R rcc encoder metrics sc)) =
           replay R (pool_history (snd (RemoteCacheConfig_NewCache R rcc encoder metrics sc)))"
proof (cases "onceCreate sc")
  case False
  then show ?thesis
    by (simp add: RemoteCacheConfig_NewCache_def Let_def replay_append split: prod.splits)
next
  case True
  show ?thesis
  proof (cases "sc_cluster sc")
    case None
    with True assms show ?thesis
      by (simp add: RemoteCacheConfig_NewCache_def)
  next
    case (Some cluster)
    with assms have "replay R (pool_history sc) = Some cluster"
      by simp
    with True Some show ?thesis
      by (simp add: RemoteCacheConfig_NewCache_def Let_def replay_append split: prod.splits)
  qed
qed

lemma Close_replay:
  assumes "sc_cluster sc = replay R (pool_history sc)"
  shows "sc_cluster (snd (RemoteCache_Close R rc sc)) =
           replay R (pool_history (snd (RemoteCache_Close R rc sc)))"
proof (cases "sc_cluster sc")
  case None
  with assms show ?thesis
    by (simp add: RemoteCache_Close_def)
next
  case (Some cluster)
  with assms have "replay R (pool_history sc) = Some cluster"
    by simp
  with Some show ?thesis
    by (simp add: RemoteCache_Close_def replay_append)
qed

lemma NewCache_builds:
  assumes "(sc_cluster sc \<noteq> None) = onceCreate sc"
  shows "sc_cluster (snd (RemoteCacheConfig_NewCache R rcc encoder metrics sc)) \<noteq> None"
  using assms
  by (auto simp add: RemoteCacheConfig_NewCache_def Let_def split: prod.splits option.splits)

lemma Close_keeps_pointer:
  "(sc_cluster (snd (RemoteCache_Close R rc sc)) \<noteq> None) = (sc_cluster sc \<noteq> None)"
  by (simp add: RemoteCache_Close_def split: option.splits)

lemma pool_invariant_NewCache:
  assumes "pool_invariant R sc"
  shows "pool_invariant R (snd (RemoteCacheConfig_NewCache R rcc encoder metrics sc))"
  unfolding pool_invariant_def
proof (intro conjI)
  let ?sc' = "snd (RemoteCacheConfig_NewCache R rcc encoder metrics sc)"
  from assms show "sc_cluster ?sc' = replay R (pool_history ?sc')"
    by (simp add: pool_invariant_def NewCache_replay)
  from assms have "(sc_cluster sc \<noteq> None) = onceCreate sc"
    unfolding pool_invariant_def by blast
  then have "sc_cluster ?sc' \<noteq> None"
    by (rule NewCache_builds)
  then show "(sc_cluster ?sc' \<noteq> None) = onceCreate ?sc'"
    by (simp add: RemoteCacheConfig_NewCache_shared)
  from assms show "creations ?sc' = (if onceCreate ?sc' then 1 else 0)"
    by (simp add: pool_invariant_def creations_def RemoteCacheConfig_NewCache_shared)
  from assms show "closings ?sc' \<le> (if onceClose ?sc' then 1 else 0)"
    by (simp add: pool_invariant_def RemoteCacheConfig_NewCache_shared)
qed

lemma pool_invariant_Close:
  assumes "pool_invariant R sc"
  shows "pool_invariant R (snd (RemoteCache_Close R rc sc))"
  unfolding pool_invariant_def
proof (intro conjI)
  let ?sc' = "snd (RemoteCache_Close R rc sc)"
  from assms show "sc_cluster ?sc' = replay R (pool_history ?sc')"
    by (simp add: pool_invariant_def Close_replay)
  from assms have "(sc_cluster sc \<noteq> None) = onceCreate sc"
    unfolding pool_invariant_def by blast
  then show "(sc_cluster ?sc' \<noteq> None) = onceCreate ?sc'"
    using Close_keeps_pointer [of R rc sc] by (simp add: RemoteCache_Close_shared)
  from assms show "creations ?sc' = (if onceCreate ?sc' then 1 else 0)"
    by (simp add: pool_invariant_def creations_def RemoteCache_Close_shared)
  from assms show "closings ?sc' \<le> (if onceClose ?sc' then 1 else 0)"
    by (auto simp add: pool_invariant_def RemoteCache_Close_shared split: if_splits)
qed

lemma pool_invariant_step:
  assumes "pool_invariant R sc"
  shows "pool_invariant R (pool_step D N nil R sc c)"
proof (cases c)
  case (Call_RemoteCacheConfig_NewCache rcc encoder metrics)
  then show ?thesis
    using assms by (simp add: pool_invariant_NewCache)
next
  case (Call_TieredCacheConfig_NewCache tcc encoder metrics lm rm)
  then show ?thesis
    using assms by (simp add: TieredCacheConfig_NewCache_shared pool_invariant_NewCache)
next
  case (Call_RemoteCache_Close rc)
  then show ?thesis
    using assms by (simp add: pool_invariant_Close)
next
  case (Call_TieredCache_Close tc)
  then show ?thesis
    using assms
    by (simp add: TieredCache_Close_shared pool_invariant_Close split: Cache_value.splits)
qed

text \<open>One call, by its kind.\<close>

lemma pool_step_constructor:
  assumes "config_of c = Some rcc"
  shows "onceCreate (pool_step D N nil R sc c)"
    and "onceClose (pool_step D N nil R sc c) = onceClose sc"
    and "created (pool_step D N nil R sc c) =
           (if onceCreate sc then created sc
            else created sc @ [PoolCreated (URLs rcc) (Timeout rcc)])"
    and "closings (pool_step D N nil R sc c) = closings sc"
    and "\<not> reaches_Close c" and "is_constructor c"
  using assms
  by (cases c; simp add: RemoteCacheConfig_NewCache_shared TieredCacheConfig_NewCache_shared)+

lemma pool_step_Close:
  assumes "reaches_Close c"
  shows "onceCreate (pool_step D N nil R sc c) = onceCreate sc"
    and "onceClose (pool_step D N nil R sc c)"
    and "created (pool_step D N nil R sc c) = created sc"
    and "closings (pool_step D N nil R sc c) =
           closings sc + (if \<not> onceClose sc \<and> sc_cluster sc \<noteq> None then 1 else 0)"
    and "config_of c = None"
  using assms
  by (cases c;
      simp add: RemoteCache_Close_shared TieredCache_Close_shared split: Cache_value.splits)+

lemma pool_step_no_effect:
  assumes "\<not> reaches_Close c" and "config_of c = None"
  shows "pool_step D N nil R sc c = sc" and "\<not> is_constructor c"
  using assms
  by (cases c; simp add: TieredCache_Close_shared split: Cache_value.splits)+

lemma pool_run_Cons:
  "pool_run D N nil R (c # cs) sc = pool_run D N nil R cs (pool_step D N nil R sc c)"
  by (simp add: pool_run_def)

text \<open>
  A sequence of calls from any state that satisfies the invariant: the invariant holds
  afterwards, the creating literal runs only if it has not run before and only for the
  first constructor call, and the cluster is closed only if \<open>onceClose\<close> was not set and
  the first \<open>Close\<close> call finds the pool.
\<close>

lemma pool_run_general:
  assumes "pool_invariant R sc"
  shows "pool_invariant R (pool_run D N nil R cs sc) \<and>
         created (pool_run D N nil R cs sc) =
           (if onceCreate sc then created sc
            else case first_config cs of
                   None \<Rightarrow> created sc
                 | Some rcc \<Rightarrow> created sc @ [PoolCreated (URLs rcc) (Timeout rcc)]) \<and>
         closings (pool_run D N nil R cs sc) =
           closings sc +
           (if \<not> onceClose sc \<and> first_Close_finds_pool (onceCreate sc) cs then 1 else 0)"
  using assms
proof (induction cs arbitrary: sc)
  case Nil
  then show ?case by (simp add: pool_run_def)
next
  case (Cons c cs)
  let ?sc' = "pool_step D N nil R sc c"
  have inv': "pool_invariant R ?sc'"
    using Cons.prems by (rule pool_invariant_step)
  note IH = Cons.IH [OF inv']
  from Cons.prems have pointer: "(sc_cluster sc \<noteq> None) = onceCreate sc"
    unfolding pool_invariant_def by blast
  show ?case
  proof (cases "config_of c")
    case (Some rcc)
    note step = pool_step_constructor [OF Some]
    show ?thesis
      using IH by (simp add: pool_run_Cons Some step split: option.splits)
  next
    case None
    show ?thesis
    proof (cases "reaches_Close c")
      case True
      note step = pool_step_Close [OF True]
      show ?thesis
        using IH pointer by (simp add: pool_run_Cons None True step split: option.splits)
    next
      case False
      note step = pool_step_no_effect [OF False None]
      show ?thesis
        using IH by (simp add: pool_run_Cons None False step split: option.splits)
    qed
  qed
qed

lemma first_config_None: "(first_config cs = None) = (\<not> (\<exists>c \<in> set cs. is_constructor c))"
proof (induction cs)
  case Nil
  then show ?case by simp
next
  case (Cons c cs)
  then show ?case by (cases c) simp_all
qed

text \<open>
  C9. Start from \<open>sharedCluster\<close> as the process starts it and make any sequence of
  calls of \<open>RemoteCacheConfig.NewCache\<close>, \<open>TieredCacheConfig.NewCache\<close>,
  \<open>RemoteCache.Close\<close> and \<open>TieredCache.Close\<close>. Then the cluster behind the shared
  pointer is exactly what the logged library operations make of the nil pointer, and
  among these operations the pool is built at most once and closed at most once. It is
  built once exactly when the sequence holds a constructor call, and then with the seed
  nodes and the timeout of the first constructor call. It is closed once exactly when
  the first \<open>Close\<close> call that gets to \<open>RemoteCache.Close\<close> comes after a constructor
  call; a \<open>Close\<close> before any constructor call panics on the nil pointer, uses up
  \<open>onceClose\<close>, and the pool built later is never closed.
\<close>

theorem shared_pool_created_once_closed_once:
  "(let sc = pool_run D N nil R cs sharedCluster_init
    in sc_cluster sc = replay R (pool_history sc) \<and>
       created sc =
         (case first_config cs of
            None \<Rightarrow> []
          | Some rcc \<Rightarrow> [PoolCreated (URLs rcc) (Timeout rcc)]) \<and>
       creations sc \<le> 1 \<and> closings sc \<le> 1 \<and>
       (creations sc = 1) = (\<exists>c \<in> set cs. is_constructor c) \<and>
       (closings sc = 1) = first_Close_finds_pool False cs)"
proof -
  let ?sc = "pool_run D N nil R cs sharedCluster_init"
  have init: "onceCreate sharedCluster_init = False" "onceClose sharedCluster_init = False"
    "created sharedCluster_init = []" "closings sharedCluster_init = 0"
    by (simp_all add: sharedCluster_init_def created_def closings_def)
  note run = pool_run_general [OF pool_invariant_init, of R D N nil cs]
  from run have coupled: "sc_cluster ?sc = replay R (pool_history ?sc)"
    by (simp add: pool_invariant_def)
  from run have built:
    "created ?sc =
       (case first_config cs of
          None \<Rightarrow> []
        | Some rcc \<Rightarrow> [PoolCreated (URLs rcc) (Timeout rcc)])"
    by (simp add: init split: option.splits)
  from run have closed: "closings ?sc = (if first_Close_finds_pool False cs then 1 else 0)"
    by (simp add: init)
  have count: "creations ?sc = (if \<exists>c \<in> set cs. is_constructor c then 1 else 0)"
    using first_config_None [of cs]
    by (auto simp add: creations_def built split: option.splits)
  show ?thesis
    unfolding Let_def using coupled built closed count by simp
qed

text \<open>
  Two runs. In the first, two constructor calls with different seed nodes are followed
  by a \<open>Close\<close>, a \<open>Close\<close> of a mock-backed tiered cache, a \<open>Close\<close> of a tiered
  cache over a \<open>RemoteCache\<close> and one more constructor call: the pool was built once,
  with the seed nodes of the first call, and its cluster has received one \<open>Close\<close>. In
  the second, \<open>Close\<close> is called before the constructor and once more after it: the
  pool was built once and its cluster has received no \<open>Close\<close>.
\<close>

theorem shared_pool_created_once_closed_once_witness:
  "created (pool_run map_DefaultConfig map_NewBigCache Map.empty mini_redis example_calls
              sharedCluster_init) = [PoolCreated [''127.0.0.1:7000''] 5000000000] \<and>
   closings (pool_run map_DefaultConfig map_NewBigCache Map.empty mini_redis example_calls
               sharedCluster_init) = 1 \<and>
   map_option nodes
     (sc_cluster (pool_run map_DefaultConfig map_NewBigCache Map.empty mini_redis example_calls
                    sharedCluster_init)) = Some [''127.0.0.1:7000''] \<and>
   map_option closes
     (sc_cluster (pool_run map_DefaultConfig map_NewBigCache Map.empty mini_redis example_calls
                    sharedCluster_init)) = Some 1 \<and>
   creations (pool_run map_DefaultConfig map_NewBigCache Map.empty mini_redis close_first_calls
                sharedCluster_init) = 1 \<and>
   closings (pool_run map_DefaultConfig map_NewBigCache Map.empty mini_redis close_first_calls
               sharedCluster_init) = 0 \<and>
   map_option closes
     (sc_cluster (pool_run map_DefaultConfig map_NewBigCache Map.empty mini_redis
                    close_first_calls sharedCluster_init)) = Some 0"
proof -
  let ?run = "pool_run map_DefaultConfig map_NewBigCache Map.empty mini_redis"
  have first: "first_config example_calls = Some config_A"
    by (simp add: example_calls_def)
  have finds: "first_Close_finds_pool False example_calls"
    by (simp add: example_calls_def)
  have config: "URLs config_A = [''127.0.0.1:7000'']" "Timeout config_A = 5000000000"
    by (simp_all add: config_A_def)
  have constructs: "\<exists>c \<in> set close_first_calls. is_constructor c"
    by (simp add: close_first_calls_def)
  have misses: "\<not> first_Close_finds_pool False close_first_calls"
    by (simp add: close_first_calls_def)
  have cluster:
    "map_option nodes (sc_cluster (?run example_calls sharedCluster_init)) =
       Some [''127.0.0.1:7000'']"
    "map_option closes (sc_cluster (?run example_calls sharedCluster_init)) = Some 1"
    by (simp_all add: pool_run_def example_calls_def sharedCluster_init_def
          RemoteCacheConfig_NewCache_def RemoteCache_Close_def TieredCache_Close_def
          config_A_def config_B_def mock_tiered_def real_tiered_def
          mini_redis_def mini_Do_def mini_empty_def Let_def)
  have never_closed:
    "map_option closes (sc_cluster (?run close_first_calls sharedCluster_init)) = Some 0"
    by (simp add: pool_run_def close_first_calls_def sharedCluster_init_def
          RemoteCacheConfig_NewCache_def RemoteCache_Close_def
          config_A_def mini_redis_def mini_Do_def mini_empty_def Let_def)
  have counts:
    "created (?run example_calls sharedCluster_init) =
       [PoolCreated [''127.0.0.1:7000''] 5000000000]"
    "closings (?run example_calls sharedCluster_init) = 1"
    using shared_pool_created_once_closed_once
      [of map_DefaultConfig map_NewBigCache Map.empty mini_redis example_calls]
    by (simp_all add: Let_def first finds config)
  have close_first:
    "creations (?run close_first_calls sharedCluster_init) = 1"
    "closings (?run close_first_calls sharedCluster_init) = 0"
    using shared_pool_created_once_closed_once
      [of map_DefaultConfig map_NewBigCache Map.empty mini_redis close_first_calls]
      constructs misses
    by (simp_all add: Let_def)
  show ?thesis
    by (simp add: counts close_first cluster never_closed)
qed

subsection \<open>Close of the tiered cache\<close>

lemma RemoteCache_Close_panic:
  "fst (RemoteCache_Close R rc sc) =
     (if \<not> onceClose sc \<and> sc_cluster sc = None then Some NilPointerDereference else None)"
  by (simp add: RemoteCache_Close_def split: option.splits)

text \<open>
  C10. \<open>TieredCache.Close\<close> hands over to \<open>RemoteCache.Close\<close> when the Remote tier is
  a \<open>RemoteCache\<close> struct: its result is then the result of \<open>RemoteCache.Close\<close> (which
  itself panics on a nil cluster pointer when no constructor has run), and the type
  assertion does not fail. With any other Remote tier (another implementation of
  \<open>Cache\<close>, such as a mock, or nil) the type assertion fails: \<open>Close\<close> panics with
  the failed assertion, nothing is closed and \<open>sharedCluster\<close> is as it was.
\<close>

theorem TieredCache_Close_requires_RemoteCache:
  "(tc_Remote tc = RemoteCache_value rc \<longrightarrow>
      TieredCache_Close R tc sc = RemoteCache_Close R rc sc \<and>
      fst (TieredCache_Close R tc sc) \<noteq> Some TypeAssertionError) \<and>
   ((\<forall>rc. tc_Remote tc \<noteq> RemoteCache_value rc) \<longrightarrow>
      TieredCache_Close R tc sc = (Some TypeAssertionError, sc))"
proof (intro conjI impI)
  assume remote: "tc_Remote tc = RemoteCache_value rc"
  then show delegated: "TieredCache_Close R tc sc = RemoteCache_Close R rc sc"
    by (simp add: TieredCache_Close_def)
  show "fst (TieredCache_Close R tc sc) \<noteq> Some TypeAssertionError"
    by (simp add: delegated RemoteCache_Close_panic)
next
  assume other: "\<forall>rc. tc_Remote tc \<noteq> RemoteCache_value rc"
  show "TieredCache_Close R tc sc = (Some TypeAssertionError, sc)"
  proof (cases "tc_Remote tc")
    case (RemoteCache_value rc)
    with other show ?thesis by simp
  qed (simp_all add: TieredCache_Close_def)
qed

text \<open>
  Runs. On the pool as one constructor call left it, \<open>Close\<close> of the mock-backed tiered
  cache panics with the failed assertion and leaves the pool as it was, and \<open>Close\<close> of
  the tiered cache over a \<open>RemoteCache\<close> returns and the cluster has received one
  \<open>Close\<close>. Before any constructor call, \<open>Close\<close> of the tiered cache over a
  \<open>RemoteCache\<close> panics on the nil pointer and sets \<open>onceClose\<close>.
\<close>

theorem TieredCache_Close_requires_RemoteCache_witness:
  "TieredCache_Close mini_redis mock_tiered open_pool = (Some TypeAssertionError, open_pool) \<and>
   fst (TieredCache_Close mini_redis real_tiered open_pool) = None \<and>
   map_option closes (sc_cluster open_pool) = Some 0 \<and>
   map_option closes (sc_cluster (snd (TieredCache_Close mini_redis real_tiered open_pool))) =
     Some 1 \<and>
   TieredCache_Close mini_redis real_tiered sharedCluster_init =
     (Some NilPointerDereference, sharedCluster_init\<lparr>onceClose := True\<rparr>)"
proof -
  have mock: "\<forall>rc. tc_Remote mock_tiered \<noteq> RemoteCache_value rc"
    by (simp add: mock_tiered_def)
  have real: "tc_Remote real_tiered = RemoteCache_value (foo_bar_remote [])"
    by (simp add: real_tiered_def)
  have pool: "open_pool =
                \<lparr>sc_cluster = Some (mini_empty\<lparr>nodes := [''127.0.0.1:7000'']\<rparr>),
                 onceCreate = True, onceClose = False,
                 pool_history = [PoolCreated [''127.0.0.1:7000''] 5000000000, PoolRefreshed]\<rparr>"
    by (simp add: open_pool_def RemoteCacheConfig_NewCache_def sharedCluster_init_def
          config_A_def mini_redis_def Let_def)
  have closed:
    "fst (RemoteCache_Close mini_redis (foo_bar_remote []) open_pool) = None"
    "map_option closes
       (sc_cluster (snd (RemoteCache_Close mini_redis (foo_bar_remote []) open_pool))) = Some 1"
    "map_option closes (sc_cluster open_pool) = Some 0"
    by (simp_all add: pool RemoteCache_Close_def mini_redis_def mini_empty_def)
  have nil_pointer:
    "RemoteCache_Close mini_redis (foo_bar_remote []) sharedCluster_init =
       (Some NilPointerDereference, sharedCluster_init\<lparr>onceClose := True\<rparr>)"
    by (simp add: RemoteCache_Close_def sharedCluster_init_def)
  show ?thesis
    using TieredCache_Close_requires_RemoteCache
            [of mock_tiered "foo_bar_remote []" mini_redis open_pool]
          TieredCache_Close_requires_RemoteCache
            [of real_tiered "foo_bar_remote []" mini_redis open_pool]
          TieredCache_Close_requires_RemoteCache
            [of real_tiered "foo_bar_remote []" mini_redis sharedCluster_init]
          mock real
    by (simp add: closed nil_pointer)
qed

end
